theory Spec2Isabelle
  imports Main
begin

section \<open>Values, failures and effects\<close>

text \<open>
  The program is a Flask application (\<^verbatim>\<open>wsgi.py\<close>) with five view functions. Everything it
  computes with comes from libraries: Flask gives the request and turns the view's result
  into a response, \<^verbatim>\<open>json\<close>, \<^verbatim>\<open>zipfile\<close>, \<^verbatim>\<open>glob\<close> and \<^verbatim>\<open>tempfile\<close> come from the standard
  library, and WeasyPrint renders. The embedding keeps the control flow of the file and takes
  every library call as a field of a record of functions, so each theorem holds for whatever
  the libraries compute.

  Two libraries are modelled after their behaviour instead, because claims depend on it:
  \<^verbatim>\<open>glob\<close> over the extracted archive, and the check Werkzeug makes on a header value.

  Byte strings and text are both \<open>string\<close>. A value that \<^verbatim>\<open>json.loads\<close> returns is a \<open>json\<close>;
  a JSON object is the dictionary in insertion order, with distinct keys.
\<close>

type_synonym bytes = string

datatype json =
    JNull
  | JBool bool
  | JInt int
  | JFloat string
  | JStr string
  | JArr "json list"
  | JObj "(string \<times> json) list"

text \<open>
  A Python exception that no code of the file catches, and the two ways a view can end
  without a response: \<^verbatim>\<open>abort(code)\<close>, which Flask answers with that status, and an uncaught
  exception, which Flask answers with 500.
\<close>

datatype exn = KeyError string | TypeError | IndexError | ValueError | LibraryError string

datatype failure = Abort nat | Uncaught exn

text \<open>
  The effects a view has besides its result: the records it logs, the temporary directory it
  creates, fills and removes, and every PDF a \<^verbatim>\<open>write_pdf\<close> call hands back.
\<close>

datatype loglevel = INFO | WARNING

datatype event =
    Logged loglevel string
  | TempDirCreated string
  | Extracted bytes string
  | TempDirRemoved string
  | PdfWritten bytes

type_synonym 'a action = "event list \<times> (failure + 'a)"

definition succeed :: "'a \<Rightarrow> 'a action" where
  "succeed x = ([], Inr x)"

definition throw :: "failure \<Rightarrow> 'a action" where
  "throw e = ([], Inl e)"

definition emit :: "event \<Rightarrow> unit action" where
  "emit ev = ([ev], Inr ())"

text \<open>Sequencing: the second step runs only if the first returned; the effects add up.\<close>

definition and_then :: "'a action \<Rightarrow> ('a \<Rightarrow> 'b action) \<Rightarrow> 'b action" where
  "and_then m f =
     (case m of
        (t, Inl e) \<Rightarrow> (t, Inl e)
      | (t, Inr x) \<Rightarrow> (case f x of (t', r) \<Rightarrow> (t @ t', r)))"

text \<open>A library call that raises ends the view with an uncaught exception.\<close>

definition lib_call :: "exn + 'a \<Rightarrow> 'a action" where
  "lib_call r = (case r of Inl e \<Rightarrow> throw (Uncaught e) | Inr x \<Rightarrow> succeed x)"

definition abort :: "nat \<Rightarrow> 'a action" where
  "abort code = throw (Abort code)"

definition logger_info :: "string \<Rightarrow> unit action" where
  "logger_info msg = emit (Logged INFO msg)"

definition logger_warning :: "string \<Rightarrow> unit action" where
  "logger_warning msg = emit (Logged WARNING msg)"

text \<open>A list comprehension whose element expression can raise: left to right, the first
  exception ends it.\<close>

fun for_each :: "('a \<Rightarrow> 'b action) \<Rightarrow> 'a list \<Rightarrow> 'b list action" where
  "for_each f [] = succeed []"
| "for_each f (x # xs) =
     and_then (f x) (\<lambda>y. and_then (for_each f xs) (\<lambda>ys. succeed (y # ys)))"

section \<open>Python values\<close>

text \<open>\<^verbatim>\<open>d[key]\<close> with a string key: only a dictionary has one, and a missing key raises.\<close>

fun subscript :: "json \<Rightarrow> string \<Rightarrow> exn + json" where
  "subscript (JObj kvs) k =
     (case map_of kvs k of None \<Rightarrow> Inl (KeyError k) | Some v \<Rightarrow> Inr v)"
| "subscript JNull k = Inl TypeError"
| "subscript (JBool b) k = Inl TypeError"
| "subscript (JInt i) k = Inl TypeError"
| "subscript (JFloat f) k = Inl TypeError"
| "subscript (JStr s) k = Inl TypeError"
| "subscript (JArr xs) k = Inl TypeError"

text \<open>\<^verbatim>\<open>for x in v\<close>: a list gives its elements, a string its characters (each a string of
  length one), a dictionary its keys; nothing else is iterable.\<close>

fun iterate :: "json \<Rightarrow> exn + json list" where
  "iterate (JArr xs) = Inr xs"
| "iterate (JStr s) = Inr (map (\<lambda>c. JStr [c]) s)"
| "iterate (JObj kvs) = Inr (map (\<lambda>kv. JStr (fst kv)) kvs)"
| "iterate JNull = Inl TypeError"
| "iterate (JBool b) = Inl TypeError"
| "iterate (JInt i) = Inl TypeError"
| "iterate (JFloat f) = Inl TypeError"

text \<open>\<^verbatim>\<open>xs[0]\<close> raises IndexError on the empty list.\<close>

fun first :: "'a list \<Rightarrow> exn + 'a" where
  "first [] = Inl IndexError"
| "first (x # xs) = Inr x"

text \<open>\<^verbatim>\<open>os.path.join(a, b)\<close> on POSIX.\<close>

definition path_join :: "string \<Rightarrow> string \<Rightarrow> string" where
  "path_join a b =
     (if b \<noteq> [] \<and> hd b = CHR ''/'' then b
      else if a = [] \<or> last a = CHR ''/'' then a @ b
      else a @ ''/'' @ b)"

section \<open>Requests, responses and the libraries\<close>

text \<open>
  \<open>req_headers\<close> and \<open>req_args\<close> are \<^verbatim>\<open>request.headers\<close> and \<^verbatim>\<open>request.args\<close> as the lookups the
  file makes: a name is in the domain when \<^verbatim>\<open>name in request.headers\<close> holds.

  \<open>req_data\<close> is \<^verbatim>\<open>request.data\<close>, the only view of the body the file reads. \<open>req_body\<close> is the
  body the client sent. The two differ when Flask has parsed the body as a form, as it does
  for the content type \<^verbatim>\<open>application/x-www-form-urlencoded\<close>: \<^verbatim>\<open>request.data\<close> is then empty.
\<close>

record request =
  req_method :: string
  req_path :: string
  req_headers :: "string \<rightharpoonup> string"
  req_args :: "string \<rightharpoonup> string"
  req_body :: bytes
  req_data :: bytes

record response =
  status :: nat
  headers :: "string \<rightharpoonup> string"
  body :: bytes

text \<open>A rendered WeasyPrint document: its pages, and what \<^verbatim>\<open>copy\<close> carries over unchanged.\<close>

record ('page, 'meta) document =
  pages :: "'page list"
  metadata :: 'meta

definition copy :: "('page, 'meta) document \<Rightarrow> 'page list \<Rightarrow> ('page, 'meta) document" where
  "copy doc ps = doc\<lparr>pages := ps\<rparr>"

text \<open>
  The content of the temporary directory after \<^verbatim>\<open>extractall\<close>: files with their bytes and
  directories with their entries, in the order in which the directory is listed.
\<close>

datatype node = File string bytes | Dir string "node list"

fun node_name :: "node \<Rightarrow> string" where
  "node_name (File n c) = n"
| "node_name (Dir n cs) = n"

text \<open>
  \<^verbatim>\<open>glob.glob(os.path.join(root, '**/*' + ext), recursive=True)\<close> over the entries of \<open>root\<close>,
  after Python's \<^verbatim>\<open>glob\<close> module, for a \<open>root\<close> without wildcard characters. The pattern
  \<^verbatim>\<open>**\<close> stands for \<open>root\<close> itself and every directory below it that \<open>rlistdir\<close> reaches: it
  lists directories only, skips a name that starts with a dot, and does not descend into
  what it skips. In each of these directories \<open>glob1\<close> keeps the names, of files and of
  directories alike, that do not start with a dot and that \<^verbatim>\<open>'*' + ext\<close> matches, that is, that
  end with \<open>ext\<close>. The result is in the order of the walk.
\<close>

definition ishidden :: "string \<Rightarrow> bool" where
  "ishidden name = (name \<noteq> [] \<and> hd name = CHR ''.'')"

definition ends_with :: "string \<Rightarrow> string \<Rightarrow> bool" where
  "ends_with ext name =
     (length ext \<le> length name \<and> drop (length name - length ext) name = ext)"

definition glob1 :: "string \<Rightarrow> node list \<Rightarrow> string \<Rightarrow> string list" where
  "glob1 dirname entries ext =
     map (path_join dirname)
       (filter (\<lambda>n. \<not> ishidden n \<and> ends_with ext n) (map node_name entries))"

fun rlistdir :: "node list \<Rightarrow> (string \<times> node list) list" where
  "rlistdir [] = []"
| "rlistdir (File n c # rest) = rlistdir rest"
| "rlistdir (Dir n cs # rest) =
     (if ishidden n then []
      else (n, cs) # map (\<lambda>(y, ys). (path_join n y, ys)) (rlistdir cs))
     @ rlistdir rest"

definition glob_recursive :: "string \<Rightarrow> node list \<Rightarrow> string \<Rightarrow> string list" where
  "glob_recursive root entries ext =
     concat (map (\<lambda>(dirname, es). glob1 dirname es ext)
       ((path_join root [], entries)
        # map (\<lambda>(y, ys). (path_join root y, ys)) (rlistdir entries)))"

text \<open>
  The library calls of the file that are taken as they come. \<open>zip_extractall data d\<close> gives
  the content of the directory \<open>d\<close> after the archive \<open>data\<close> was extracted into it, and the
  two \<open>filename\<close> constructors read from that content. \<open>write_pdf html None\<close> is
  \<^verbatim>\<open>html.write_pdf()\<close>, \<open>write_pdf html (Some css)\<close> is \<^verbatim>\<open>html.write_pdf(stylesheets=css)\<close>.
\<close>

record ('html, 'css, 'page, 'meta) library =
  utf8_decode :: "bytes \<Rightarrow> exn + string"
  json_loads :: "string \<Rightarrow> exn + json"
  mkdtemp :: "string \<Rightarrow> exn + string"
  zip_extractall :: "bytes \<Rightarrow> string \<Rightarrow> exn + node list"
  HTML_string :: "json \<Rightarrow> exn + 'html"
  HTML_filename :: "node list \<Rightarrow> string \<Rightarrow> exn + 'html"
  CSS_string :: "json \<Rightarrow> exn + 'css"
  CSS_filename :: "node list \<Rightarrow> string \<Rightarrow> exn + 'css"
  write_pdf :: "'html \<Rightarrow> 'css list option \<Rightarrow> exn + bytes"
  render :: "'html \<Rightarrow> exn + ('page, 'meta) document"
  document_write_pdf :: "('page, 'meta) document \<Rightarrow> exn + bytes"

text \<open>
  \<^verbatim>\<open>request.headers[name]\<close> raises when the header is missing. Werkzeug looks the name up in
  the WSGI environment, under the key \<open>environ_key name\<close>, and the KeyError carries that key.
\<close>

definition upper :: "string \<Rightarrow> string" where
  "upper s =
     map (\<lambda>c. case map_of (zip ''abcdefghijklmnopqrstuvwxyz'' ''ABCDEFGHIJKLMNOPQRSTUVWXYZ'') c of
                None \<Rightarrow> c | Some u \<Rightarrow> u) s"

definition environ_key :: "string \<Rightarrow> string" where
  "environ_key name =
     (let key = map (\<lambda>c. if c = CHR ''-'' then CHR ''_'' else c) (upper name)
      in if key = ''CONTENT_TYPE'' \<or> key = ''CONTENT_LENGTH'' then key else ''HTTP_'' @ key)"

definition headers_getitem :: "(string \<rightharpoonup> string) \<Rightarrow> string \<Rightarrow> string action" where
  "headers_getitem hs k =
     (case hs k of None \<Rightarrow> throw (Uncaught (KeyError (environ_key k))) | Some v \<Rightarrow> succeed v)"

text \<open>\<^verbatim>\<open>request.args.get(name, default)\<close>.\<close>

definition args_get :: "(string \<rightharpoonup> string) \<Rightarrow> string \<Rightarrow> string \<Rightarrow> string" where
  "args_get a k d = (case a k of None \<Rightarrow> d | Some v \<Rightarrow> v)"

text \<open>\<^verbatim>\<open>make_response(data)\<close>: status 200 and Flask's default content type.\<close>

definition make_response :: "bytes \<Rightarrow> response" where
  "make_response b =
     \<lparr>status = 200, headers = [''Content-Type'' \<mapsto> ''text/html; charset=utf-8''], body = b\<rparr>"

text \<open>
  \<^verbatim>\<open>response.headers[k] = v\<close>: Werkzeug raises ValueError when the value holds a carriage
  return or a line feed.
\<close>

definition header_safe :: "string \<Rightarrow> bool" where
  "header_safe v = (CHR 0x0A \<notin> set v \<and> CHR 0x0D \<notin> set v)"

definition set_header :: "response \<Rightarrow> string \<Rightarrow> string \<Rightarrow> exn + response" where
  "set_header r k v =
     (if header_safe v then Inr (r\<lparr>headers := (headers r)(k \<mapsto> v)\<rparr>) else Inl ValueError)"

text \<open>A \<^verbatim>\<open>write_pdf\<close> call: the PDF it returns is an effect as well as a value.\<close>

definition pdf_written :: "exn + bytes \<Rightarrow> bytes action" where
  "pdf_written r =
     (case r of Inl e \<Rightarrow> throw (Uncaught e) | Inr pdf \<Rightarrow> ([PdfWritten pdf], Inr pdf))"

text \<open>\<^verbatim>\<open>with TemporaryDirectory(prefix=p) as d:\<close> the directory is removed however the block
  ends.\<close>

definition with_temporary_directory ::
  "('html, 'css, 'page, 'meta) library \<Rightarrow> string \<Rightarrow> (string \<Rightarrow> 'a action) \<Rightarrow> 'a action" where
  "with_temporary_directory lib prefix block =
     (case mkdtemp lib prefix of
        Inl e \<Rightarrow> throw (Uncaught e)
      | Inr d \<Rightarrow> (case block d of (t, r) \<Rightarrow> (TempDirCreated d # t @ [TempDirRemoved d], r)))"

text \<open>\<^verbatim>\<open>with zipfile.ZipFile(BytesIO(data), mode='r') as myzip: myzip.extractall(d)\<close>.\<close>

definition extract_zip ::
  "('html, 'css, 'page, 'meta) library \<Rightarrow> bytes \<Rightarrow> string \<Rightarrow> node list action" where
  "extract_zip lib data d =
     (case zip_extractall lib data d of
        Inl e \<Rightarrow> throw (Uncaught e)
      | Inr fs \<Rightarrow> ([Extracted data d], Inr fs))"

section \<open>The view functions\<close>

text \<open>The wrapper \<open>checkauth\<close> that \<open>authenticate\<close> puts around a view. \<open>environ\<close> is
  \<^verbatim>\<open>os.environ\<close>; \<^verbatim>\<open>os.environ.get\<close> of an unset variable is \<open>None\<close>, which equals no header
  value.\<close>

definition checkauth_passes :: "(string \<rightharpoonup> string) \<Rightarrow> request \<Rightarrow> bool" where
  "checkauth_passes environ req =
     (req_headers req ''X_API_KEY'' = None
      \<or> environ ''X_API_KEY'' = req_headers req ''X_API_KEY'')"

definition authenticate ::
  "(string \<rightharpoonup> string) \<Rightarrow> (request \<Rightarrow> 'a action) \<Rightarrow> request \<Rightarrow> 'a action" where
  "authenticate environ f req =
     (if checkauth_passes environ req then f req else abort 401)"

definition index :: "request \<Rightarrow> response action" where
  "index req = succeed (make_response ''ok'')"

text \<open>
  The three statements every rendering view builds its response with:
  \<^verbatim>\<open>make_response(pdf)\<close>, then the content type, then the content disposition with the file
  name of the query string.
\<close>

definition pdf_response :: "bytes \<Rightarrow> string \<Rightarrow> exn + response" where
  "pdf_response pdf name =
     (case set_header (make_response pdf) ''Content-Type'' ''application/pdf'' of
        Inl e \<Rightarrow> Inl e
      | Inr response \<Rightarrow>
          set_header response ''Content-Disposition'' (''inline;filename='' @ name))"

definition generate ::
  "('html, 'css, 'page, 'meta) library \<Rightarrow> request \<Rightarrow> response action" where
  "generate lib req =
     (let name = args_get (req_args req) ''filename'' ''unnamed.pdf'' in
      and_then (logger_info (''POST  /pdf?filename='' @ name)) (\<lambda>_.
      and_then (headers_getitem (req_headers req) ''Content-Type'') (\<lambda>ctype.
      and_then
        (if ctype = ''application/json'' then
           and_then (lib_call (utf8_decode lib (req_data req))) (\<lambda>text.
           and_then (lib_call (json_loads lib text)) (\<lambda>data.
           and_then (lib_call (subscript data ''html'')) (\<lambda>h.
           and_then (lib_call (HTML_string lib h)) (\<lambda>html.
           and_then (lib_call (subscript data ''css'')) (\<lambda>c.
           and_then (lib_call (iterate c)) (\<lambda>sheets.
           and_then (for_each (\<lambda>sheet. lib_call (CSS_string lib sheet)) sheets) (\<lambda>css.
           pdf_written (write_pdf lib html (Some css)))))))))
         else
           and_then (lib_call (utf8_decode lib (req_data req))) (\<lambda>text.
           and_then (lib_call (HTML_string lib (JStr text))) (\<lambda>html.
           pdf_written (write_pdf lib html None))))
        (\<lambda>pdf.
      and_then (lib_call (pdf_response pdf name)) (\<lambda>response.
      and_then (logger_info ('' ==> POST  /pdf?filename='' @ name @ ''  ok'')) (\<lambda>_.
      succeed response))))))"

text \<open>\<^verbatim>\<open>documents[0].copy([page for doc in documents for page in doc.pages]).write_pdf()\<close>.\<close>

definition write_combined ::
  "('html, 'css, 'page, 'meta) library \<Rightarrow> ('page, 'meta) document list \<Rightarrow> bytes action" where
  "write_combined lib documents =
     and_then (lib_call (first documents)) (\<lambda>d0.
     pdf_written (document_write_pdf lib (copy d0 (concat (map pages documents)))))"

definition multiple ::
  "('html, 'css, 'page, 'meta) library \<Rightarrow> request \<Rightarrow> response action" where
  "multiple lib req =
     (let name = args_get (req_args req) ''filename'' ''unnamed.pdf'' in
      and_then (logger_info (''POST  /multiple?filename='' @ name)) (\<lambda>_.
      and_then (lib_call (utf8_decode lib (req_data req))) (\<lambda>text.
      and_then (lib_call (json_loads lib text)) (\<lambda>htmls.
      and_then (lib_call (iterate htmls)) (\<lambda>items.
      and_then
        (for_each
           (\<lambda>html. and_then (lib_call (HTML_string lib html)) (\<lambda>h. lib_call (render lib h)))
           items) (\<lambda>documents.
      and_then (write_combined lib documents) (\<lambda>pdf.
      and_then (lib_call (pdf_response pdf name)) (\<lambda>response.
      and_then (logger_info ('' ==> POST  /multiple?filename='' @ name @ ''  ok'')) (\<lambda>_.
      succeed response)))))))))"

text \<open>The branch of \<open>zip2pdf\<close> on the two glob results (lines 121 to 130 of the file).\<close>

definition zip2pdf_render ::
  "('html, 'css, 'page, 'meta) library \<Rightarrow> node list \<Rightarrow> string list \<Rightarrow> string list
     \<Rightarrow> bytes action" where
  "zip2pdf_render lib fs htmls csss =
     (if length htmls = 0 then
        and_then (logger_warning ''Zip archive contain no html files.'') (\<lambda>_. abort 400)
      else if length htmls = 1 then
        and_then (lib_call (HTML_filename lib fs (htmls ! 0))) (\<lambda>html.
        and_then (for_each (\<lambda>sheet. lib_call (CSS_filename lib fs sheet)) csss) (\<lambda>css.
        pdf_written (write_pdf lib html (Some css))))
      else
        and_then
          (for_each
             (\<lambda>html. and_then (lib_call (HTML_filename lib fs html)) (\<lambda>h. lib_call (render lib h)))
             htmls) (\<lambda>documents.
        write_combined lib documents))"

definition zip2pdf ::
  "('html, 'css, 'page, 'meta) library \<Rightarrow> request \<Rightarrow> response action" where
  "zip2pdf lib req =
     (let name = args_get (req_args req) ''filename'' ''unnamed.pdf'' in
      and_then (logger_info (''POST  /zip2pdf?filename='' @ name)) (\<lambda>_.
      and_then
        (with_temporary_directory lib ''weasyprint-'' (\<lambda>temp_dir.
           and_then (extract_zip lib (req_data req) temp_dir) (\<lambda>fs.
           let htmls = glob_recursive temp_dir fs ''.html'';
               csss = glob_recursive temp_dir fs ''.css''
           in zip2pdf_render lib fs htmls csss)))
        (\<lambda>pdf.
      and_then (lib_call (pdf_response pdf name)) (\<lambda>response.
      and_then (logger_info ('' ==> POST  /zip2pdf?filename='' @ name @ ''  ok'')) (\<lambda>_.
      succeed response)))))"

section \<open>Routing\<close>

text \<open>
  The routes the decorators declare, for the methods they name. Where none is named the
  route is for \<^verbatim>\<open>GET\<close>, and Flask runs the view for \<^verbatim>\<open>HEAD\<close> as well (the server then sends the
  response without its body). \<open>serve\<close> is \<open>None\<close> when no view of the file is selected: what
  Flask answers then (404, 405, its own OPTIONS handling) is not code of the file. The usage
  page at \<^verbatim>\<open>/\<close> returns a constant text.
\<close>

datatype view = Index | Home | Generate | Multiple | Zip2pdf

definition route :: "string \<Rightarrow> string \<Rightarrow> view option" where
  "route m p =
     (if (m = ''GET'' \<or> m = ''HEAD'') \<and> p = ''/health'' then Some Index
      else if (m = ''GET'' \<or> m = ''HEAD'') \<and> p = ''/'' then Some Home
      else if m = ''POST'' \<and> p = ''/pdf'' then Some Generate
      else if m = ''POST'' \<and> p = ''/multiple'' then Some Multiple
      else if m = ''POST'' \<and> p = ''/zip2pdf'' then Some Zip2pdf
      else None)"

definition usage_page :: string where
  "usage_page =
     ''\<newline>''
     @ ''            <h1>PDF Generator</h1>\<newline>''
     @ ''            <p>The following endpoints are available:</p>\<newline>''
     @ ''            <ul>\<newline>''
     @ ''                <li>POST to <code>/pdf?filename=myfile.pdf</code>. The body should\<newline>''
     @ ''                    contain html or a JSON list of html strings and css strings: { \"html\": html, \"css\": [css-file-objects] }</li>\<newline>''
     @ ''                <li>POST to <code>/multiple?filename=myfile.pdf</code>. The body\<newline>''
     @ ''                    should contain a JSON list of html strings. They will each\<newline>''
     @ ''                    be rendered and combined into a single pdf</li>\<newline>''
     @ ''                <li>POST to <code>/zip2pdf?filename=myfile.pdf</code>. The body\<newline>''
     @ ''                    should contain a .zip file with at least one html file. Can\<newline>''
     @ ''                    be used for image heavy pages.</li>\<newline>''
     @ ''            </ul>\<newline>''
     @ ''        ''"

definition home :: "request \<Rightarrow> response action" where
  "home req = succeed (make_response usage_page)"

fun run_view ::
  "('html, 'css, 'page, 'meta) library \<Rightarrow> (string \<rightharpoonup> string) \<Rightarrow> view \<Rightarrow> request
     \<Rightarrow> response action" where
  "run_view lib environ Index req = index req"
| "run_view lib environ Home req = home req"
| "run_view lib environ Generate req = authenticate environ (generate lib) req"
| "run_view lib environ Multiple req = authenticate environ (multiple lib) req"
| "run_view lib environ Zip2pdf req = authenticate environ (zip2pdf lib) req"

definition serve ::
  "('html, 'css, 'page, 'meta) library \<Rightarrow> (string \<rightharpoonup> string) \<Rightarrow> request
     \<Rightarrow> response action option" where
  "serve lib environ req =
     map_option (\<lambda>v. run_view lib environ v req) (route (req_method req) (req_path req))"

text \<open>The status the client sees.\<close>

fun http_status :: "response action \<Rightarrow> nat" where
  "http_status (t, Inr r) = status r"
| "http_status (t, Inl (Abort code)) = code"
| "http_status (t, Inl (Uncaught e)) = 500"

text \<open>The status of an \<^verbatim>\<open>abort\<close>, when the view ended with one.\<close>

fun abort_code :: "'a action \<Rightarrow> nat option" where
  "abort_code (t, Inl (Abort code)) = Some code"
| "abort_code (t, Inl (Uncaught e)) = None"
| "abort_code (t, Inr x) = None"

section \<open>The files of an archive\<close>


text \<open>Every file below \<open>dir\<close> with its full path and its bytes.\<close>

fun tree_files :: "string \<Rightarrow> node list \<Rightarrow> (string \<times> bytes) list" where
  "tree_files dir [] = []"
| "tree_files dir (File n c # rest) = (path_join dir n, c) # tree_files dir rest"
| "tree_files dir (Dir n cs # rest) = tree_files (path_join dir n) cs @ tree_files dir rest"

section \<open>A small library to evaluate the views on\<close>

text \<open>
  A stand-in for the libraries, used to run the views on concrete requests: decoding is the
  identity, \<^verbatim>\<open>json.loads\<close> rejects the empty text and returns \<open>parsed\<close> otherwise, the empty
  byte string is no archive and every other one extracts to \<open>files\<close> in the directory
  \<^verbatim>\<open>/tmp/weasyprint-0\<close>, an HTML or CSS object is its
  text, read from the file when it is given by name (a name that is no file is an error), a
  rendered document has one page, and a PDF is a marker followed by what went into it.
\<close>

definition sample_library ::
  "json \<Rightarrow> node list \<Rightarrow> (string, string, string, unit) library" where
  "sample_library parsed files =
     \<lparr>utf8_decode = (\<lambda>b. Inr b),
      json_loads = (\<lambda>s. if s = [] then Inl (LibraryError ''JSONDecodeError'') else Inr parsed),
      mkdtemp = (\<lambda>prefix. Inr (''/tmp/'' @ prefix @ ''0'')),
      zip_extractall = (\<lambda>data d.
        if data = [] then Inl (LibraryError ''BadZipFile'') else Inr files),
      HTML_string = (\<lambda>v. case v of JStr s \<Rightarrow> Inr s | _ \<Rightarrow> Inl TypeError),
      HTML_filename = (\<lambda>fs p.
        case map_of (tree_files ''/tmp/weasyprint-0'' fs) p of
          None \<Rightarrow> Inl (LibraryError ''IsADirectoryError'') | Some c \<Rightarrow> Inr c),
      CSS_string = (\<lambda>v. case v of JStr s \<Rightarrow> Inr s | _ \<Rightarrow> Inl TypeError),
      CSS_filename = (\<lambda>fs p.
        case map_of (tree_files ''/tmp/weasyprint-0'' fs) p of
          None \<Rightarrow> Inl (LibraryError ''IsADirectoryError'') | Some c \<Rightarrow> Inr c),
      write_pdf = (\<lambda>html css.
        Inr (''%PDF:'' @ html @ concat (case css of None \<Rightarrow> [] | Some cs \<Rightarrow> cs))),
      render = (\<lambda>html. Inr \<lparr>pages = [html], metadata = ()\<rparr>),
      document_write_pdf = (\<lambda>doc. Inr (''%PDF:'' @ concat (pages doc)))\<rparr>"

section \<open>Facts about sequencing\<close>

lemma and_then_succeed [simp]: "and_then (succeed x) f = f x"
  by (simp add: and_then_def succeed_def)

lemma and_then_throw [simp]: "and_then (throw e) f = throw e"
  by (simp add: and_then_def throw_def)

lemma and_then_log [simp]:
  "and_then (logger_info msg) f = (Logged INFO msg # fst (f ()), snd (f ()))"
  "and_then (logger_warning msg) f = (Logged WARNING msg # fst (f ()), snd (f ()))"
  by (simp_all add: and_then_def emit_def logger_info_def logger_warning_def split: prod.splits)

lemma and_then_pair [simp]:
  "and_then (t, Inr x) f = (t @ fst (f x), snd (f x))"
  "and_then (t, Inl e) f = (t, Inl e)"
  by (simp_all add: and_then_def split: prod.splits)

lemma lib_call_Inr [simp]: "lib_call (Inr x) = succeed x"
  by (simp add: lib_call_def)

lemma lib_call_Inl [simp]: "lib_call (Inl e) = throw (Uncaught e)"
  by (simp add: lib_call_def)

lemma pdf_written_Inr [simp]: "pdf_written (Inr pdf) = ([PdfWritten pdf], Inr pdf)"
  by (simp add: pdf_written_def)

lemma pdf_written_Inl [simp]: "pdf_written (Inl e) = throw (Uncaught e)"
  by (simp add: pdf_written_def)

lemma fst_throw [simp]: "fst (throw e) = []"
  by (simp add: throw_def)

lemma snd_throw [simp]: "snd (throw e) = Inl e"
  by (simp add: throw_def)

lemma fst_succeed [simp]: "fst (succeed x) = []"
  by (simp add: succeed_def)

lemma snd_succeed [simp]: "snd (succeed x) = Inr x"
  by (simp add: succeed_def)

section \<open>The response headers\<close>

lemma header_safe_append [simp]: "header_safe (u @ v) \<longleftrightarrow> header_safe u \<and> header_safe v"
  by (auto simp: header_safe_def)

lemma header_safe_Nil [simp]: "header_safe []"
  by (simp add: header_safe_def)

lemma header_safe_Cons [simp]:
  "header_safe (c # v) \<longleftrightarrow> c \<noteq> CHR 0x0A \<and> c \<noteq> CHR 0x0D \<and> header_safe v"
  by (auto simp: header_safe_def)

lemma pdf_response_safe:
  assumes "header_safe name"
  shows "pdf_response pdf name =
           Inr \<lparr>status = 200,
                headers = [''Content-Type'' \<mapsto> ''application/pdf'',
                           ''Content-Disposition'' \<mapsto> ''inline;filename='' @ name],
                body = pdf\<rparr>"
  using assms by (simp add: pdf_response_def set_header_def make_response_def)

lemma pdf_response_unsafe:
  assumes "\<not> header_safe name"
  shows "pdf_response pdf name = Inl ValueError"
  using assms by (simp add: pdf_response_def set_header_def make_response_def)

lemma pdf_response_Inr:
  assumes "pdf_response pdf name = Inr r"
  shows "header_safe name \<and> status r = 200 \<and> body r = pdf
         \<and> headers r = [''Content-Type'' \<mapsto> ''application/pdf'',
                        ''Content-Disposition'' \<mapsto> ''inline;filename='' @ name]"
proof (cases "header_safe name")
  case True
  with assms show ?thesis by (auto simp: pdf_response_safe)
next
  case False
  with assms show ?thesis by (simp add: pdf_response_unsafe)
qed

lemma environ_key_content_type [simp]: "environ_key ''Content-Type'' = ''CONTENT_TYPE''"
  by (simp add: environ_key_def upper_def)

section \<open>Authentication\<close>

text \<open>
  C1 (the code departs from it). The intended contract is that a POST to \<^verbatim>\<open>/pdf\<close>,
  \<^verbatim>\<open>/multiple\<close> or \<^verbatim>\<open>/zip2pdf\<close> without an \<^verbatim>\<open>X_API_KEY\<close> header equal to the configured secret is
  answered 401 and its body is left alone. The wrapper lets a request with no such header
  through: with the secret set to \<^verbatim>\<open>secret\<close>, a POST to \<^verbatim>\<open>/pdf\<close> that carries no key is
  rendered and answered 200 with the PDF.
\<close>

theorem missing_api_key_is_served:
  "serve (sample_library JNull []) [''X_API_KEY'' \<mapsto> ''secret'']
     \<lparr>req_method = ''POST'', req_path = ''/pdf'',
      req_headers = [''Content-Type'' \<mapsto> ''text/html''], req_args = Map.empty,
      req_body = ''<p>hi</p>'', req_data = ''<p>hi</p>''\<rparr>
   = Some ([Logged INFO ''POST  /pdf?filename=unnamed.pdf'',
            PdfWritten ''%PDF:<p>hi</p>'',
            Logged INFO '' ==> POST  /pdf?filename=unnamed.pdf  ok''],
           Inr \<lparr>status = 200,
                headers = [''Content-Type'' \<mapsto> ''application/pdf'',
                           ''Content-Disposition'' \<mapsto> ''inline;filename=unnamed.pdf''],
                body = ''%PDF:<p>hi</p>''\<rparr>)"
  by (simp add: serve_def route_def authenticate_def checkauth_passes_def generate_def
      Let_def args_get_def headers_getitem_def sample_library_def pdf_response_safe)

text \<open>
  C2. The wrapper \<open>checkauth\<close> runs the view exactly when the request has no \<^verbatim>\<open>X_API_KEY\<close>
  header or the header's value is the value of the environment variable \<^verbatim>\<open>X_API_KEY\<close>; in
  every other case it aborts with 401, with no effect.
\<close>

theorem checkauth_decision:
  "authenticate environ f req =
     (if req_headers req ''X_API_KEY'' = None
         \<or> (\<exists>v. req_headers req ''X_API_KEY'' = Some v \<and> environ ''X_API_KEY'' = Some v)
      then f req else ([], Inl (Abort 401)))"
  by (auto simp: authenticate_def checkauth_passes_def abort_def throw_def)

text \<open>
  C9. With the environment variable \<^verbatim>\<open>X_API_KEY\<close> unset, a request that supplies an
  \<^verbatim>\<open>X_API_KEY\<close> header, whatever its value, is rejected with 401, and a request without the
  header reaches the view.
\<close>

theorem unset_secret:
  assumes "environ ''X_API_KEY'' = None"
  shows "(req_headers req ''X_API_KEY'' = Some v \<longrightarrow>
            authenticate environ f req = ([], Inl (Abort 401))
            \<and> http_status (authenticate environ f req) = 401)
         \<and> (req_headers req ''X_API_KEY'' = None \<longrightarrow> authenticate environ f req = f req)"
  using assms by (simp add: authenticate_def checkauth_passes_def abort_def throw_def)

theorem unset_secret_witness:
  "(Map.empty :: string \<rightharpoonup> string) ''X_API_KEY'' = None
   \<and> authenticate Map.empty index
        \<lparr>req_method = ''GET'', req_path = ''/health'',
         req_headers = [''X_API_KEY'' \<mapsto> ''anything''], req_args = Map.empty,
         req_body = [], req_data = []\<rparr>
       = ([], Inl (Abort 401))
   \<and> authenticate Map.empty index
        \<lparr>req_method = ''GET'', req_path = ''/health'',
         req_headers = Map.empty, req_args = Map.empty, req_body = [], req_data = []\<rparr>
       = ([], Inr (make_response ''ok''))"
  using
    unset_secret [of Map.empty
      "\<lparr>req_method = ''GET'', req_path = ''/health'',
        req_headers = [''X_API_KEY'' \<mapsto> ''anything''], req_args = Map.empty,
        req_body = [], req_data = []\<rparr>" "''anything''" index]
    unset_secret [of Map.empty
      "\<lparr>req_method = ''GET'', req_path = ''/health'',
        req_headers = Map.empty, req_args = Map.empty, req_body = [], req_data = []\<rparr>"
      "''anything''" index]
  by (simp add: index_def succeed_def)

section \<open>The health check\<close>

text \<open>
  C8. A GET request to \<^verbatim>\<open>/health\<close> is answered 200 with body \<^verbatim>\<open>ok\<close>, whatever its headers and
  whatever the environment holds: the view is not wrapped by \<open>authenticate\<close> and has no
  effect.
\<close>

theorem health_ok:
  assumes "req_method req = ''GET''" and "req_path req = ''/health''"
  shows "serve lib environ req = Some ([], Inr (make_response ''ok''))
         \<and> status (make_response ''ok'') = 200 \<and> body (make_response ''ok'') = ''ok''"
  using assms by (simp add: serve_def route_def index_def succeed_def make_response_def)

theorem health_ok_witness:
  "serve (sample_library JNull []) [''X_API_KEY'' \<mapsto> ''secret'']
     \<lparr>req_method = ''GET'', req_path = ''/health'',
      req_headers = [''X_API_KEY'' \<mapsto> ''wrong''], req_args = Map.empty,
      req_body = [], req_data = []\<rparr>
   = Some ([], Inr \<lparr>status = 200,
        headers = [''Content-Type'' \<mapsto> ''text/html; charset=utf-8''], body = ''ok''\<rparr>)"
  using health_ok [of "\<lparr>req_method = ''GET'', req_path = ''/health'',
      req_headers = [''X_API_KEY'' \<mapsto> ''wrong''], req_args = Map.empty,
      req_body = [], req_data = []\<rparr>"
      "sample_library JNull []" "[''X_API_KEY'' \<mapsto> ''secret'']"]
  by (simp add: make_response_def)

section \<open>Several documents in one request\<close>

text \<open>
  C10. An authorized POST to \<^verbatim>\<open>/multiple\<close> whose body is the empty JSON array renders
  nothing, then reads \<^verbatim>\<open>documents[0]\<close> of an empty list: the view ends with an uncaught
  IndexError, answered 500, after logging the request and before any PDF is written.
\<close>

theorem multiple_empty_array:
  assumes "checkauth_passes environ req"
      and "req_method req = ''POST''" and "req_path req = ''/multiple''"
      and "utf8_decode lib (req_data req) = Inr text"
      and "json_loads lib text = Inr (JArr [])"
  shows "serve lib environ req =
           Some ([Logged INFO (''POST  /multiple?filename=''
                    @ args_get (req_args req) ''filename'' ''unnamed.pdf'')],
                 Inl (Uncaught IndexError))
         \<and> http_status (the (serve lib environ req)) = 500"
  using assms
  by (simp add: serve_def route_def authenticate_def multiple_def write_combined_def Let_def)

theorem multiple_empty_array_witness:
  "serve (sample_library (JArr []) []) Map.empty
     \<lparr>req_method = ''POST'', req_path = ''/multiple'', req_headers = Map.empty,
      req_args = Map.empty, req_body = ''[]'', req_data = ''[]''\<rparr>
   = Some ([Logged INFO ''POST  /multiple?filename=unnamed.pdf''], Inl (Uncaught IndexError))"
  using multiple_empty_array [of Map.empty
      "\<lparr>req_method = ''POST'', req_path = ''/multiple'', req_headers = Map.empty,
        req_args = Map.empty, req_body = ''[]'', req_data = ''[]''\<rparr>"
      "sample_library (JArr []) []" "''[]''"]
  by (simp add: checkauth_passes_def sample_library_def args_get_def)

section \<open>What a response requires\<close>

lemma snd_and_then_Inr:
  "snd (and_then m f) = Inr r \<longleftrightarrow> (\<exists>x. snd m = Inr x \<and> snd (f x) = Inr r)"
proof (cases m)
  case (Pair t res)
  then show ?thesis by (cases res) simp_all
qed

lemma snd_lib_call_Inr [simp]: "snd (lib_call c) = Inr x \<longleftrightarrow> c = Inr x"
  by (cases c) simp_all

lemma snd_pdf_written_Inr [simp]: "snd (pdf_written c) = Inr x \<longleftrightarrow> c = Inr x"
  by (cases c) simp_all

lemma snd_log [simp]:
  "snd (logger_info msg) = Inr ()" "snd (logger_warning msg) = Inr ()"
  by (simp_all add: logger_info_def logger_warning_def emit_def)

lemma snd_headers_getitem_Inr [simp]: "snd (headers_getitem hs k) = Inr v \<longleftrightarrow> hs k = Some v"
  by (simp add: headers_getitem_def split: option.splits)

lemma snd_abort [simp]: "snd (abort code) = Inl (Abort code)"
  by (simp add: abort_def)

lemma snd_for_each_Inr:
  "snd (for_each f xs) = Inr ys \<longleftrightarrow> list_all2 (\<lambda>x y. snd (f x) = Inr y) xs ys"
proof (induction xs arbitrary: ys)
  case Nil
  then show ?case by auto
next
  case (Cons x xs)
  show ?case
    by (cases ys) (auto simp: snd_and_then_Inr Cons.IH)
qed

lemma first_Inr [simp]: "first xs = Inr x \<longleftrightarrow> xs \<noteq> [] \<and> x = hd xs"
  by (cases xs) auto

lemma snd_write_combined_Inr:
  "snd (write_combined lib docs) = Inr pdf \<longleftrightarrow>
     docs \<noteq> [] \<and> document_write_pdf lib (copy (hd docs) (concat (map pages docs))) = Inr pdf"
  by (auto simp: write_combined_def snd_and_then_Inr)

text \<open>\<^verbatim>\<open>HTML(...).render()\<close> for one element of a list comprehension.\<close>

lemma snd_render_one_Inr:
  "snd (and_then (lib_call (mk x)) (\<lambda>h. lib_call (render lib h))) = Inr doc \<longleftrightarrow>
     (\<exists>h. mk x = Inr h \<and> render lib h = Inr doc)"
  by (simp add: snd_and_then_Inr)

lemma generate_success:
  assumes "snd (generate lib req) = Inr r"
  shows "\<exists>ctype decoded pdf.
     req_headers req ''Content-Type'' = Some ctype
     \<and> utf8_decode lib (req_data req) = Inr decoded
     \<and> (if ctype = ''application/json''
        then \<exists>j h html c sheets css.
               json_loads lib decoded = Inr j \<and> subscript j ''html'' = Inr h
               \<and> HTML_string lib h = Inr html \<and> subscript j ''css'' = Inr c
               \<and> iterate c = Inr sheets
               \<and> list_all2 (\<lambda>sheet x. CSS_string lib sheet = Inr x) sheets css
               \<and> write_pdf lib html (Some css) = Inr pdf
        else \<exists>html. HTML_string lib (JStr decoded) = Inr html
               \<and> write_pdf lib html None = Inr pdf)
     \<and> pdf_response pdf (args_get (req_args req) ''filename'' ''unnamed.pdf'') = Inr r"
  using assms
  apply (auto simp: generate_def Let_def snd_and_then_Inr snd_for_each_Inr split: if_splits)
   apply blast+
  done

lemma multiple_success:
  assumes "snd (multiple lib req) = Inr r"
  shows "\<exists>decoded htmls items docs pdf.
     utf8_decode lib (req_data req) = Inr decoded
     \<and> json_loads lib decoded = Inr htmls \<and> iterate htmls = Inr items
     \<and> list_all2 (\<lambda>x doc. \<exists>h. HTML_string lib x = Inr h \<and> render lib h = Inr doc) items docs
     \<and> docs \<noteq> []
     \<and> document_write_pdf lib (copy (hd docs) (concat (map pages docs))) = Inr pdf
     \<and> pdf_response pdf (args_get (req_args req) ''filename'' ''unnamed.pdf'') = Inr r"
  using assms
  by (auto simp: multiple_def Let_def snd_and_then_Inr snd_for_each_Inr snd_write_combined_Inr)

lemma zip2pdf_render_success:
  assumes "snd (zip2pdf_render lib fs htmls csss) = Inr pdf"
  shows "htmls \<noteq> []
     \<and> (if length htmls = 1
        then \<exists>html css. HTML_filename lib fs (htmls ! 0) = Inr html
               \<and> list_all2 (\<lambda>sheet x. CSS_filename lib fs sheet = Inr x) csss css
               \<and> write_pdf lib html (Some css) = Inr pdf
        else \<exists>docs.
               list_all2 (\<lambda>x doc. \<exists>h. HTML_filename lib fs x = Inr h \<and> render lib h = Inr doc)
                 htmls docs
               \<and> document_write_pdf lib (copy (hd docs) (concat (map pages docs))) = Inr pdf)"
  using assms
  by (auto simp: zip2pdf_render_def snd_and_then_Inr snd_for_each_Inr snd_write_combined_Inr
      split: if_splits)


section \<open>Which views abort\<close>


lemma abort_code_succeed [simp]: "abort_code (succeed x) = None"
  by (simp add: succeed_def)

lemma abort_code_throw [simp]:
  "abort_code (throw (Uncaught e)) = None" "abort_code (throw (Abort code)) = Some code"
  by (simp_all add: throw_def)

lemma abort_code_lib_call [simp]: "abort_code (lib_call r) = None"
  by (cases r) simp_all

lemma abort_code_pdf_written [simp]: "abort_code (pdf_written r) = None"
  by (cases r) simp_all

lemma abort_code_snd: "abort_code m = abort_code ([], snd m)"
  by (cases m rule: abort_code.cases) simp_all

lemma abort_code_Inl:
  "abort_code (t, Inl e) = (case e of Abort code \<Rightarrow> Some code | Uncaught x \<Rightarrow> None)"
  by (cases e) simp_all

lemma abort_code_cons [simp]: "abort_code (ev # t, r) = abort_code (t, r)"
  by (cases "(t, r)" rule: abort_code.cases) simp_all

lemma abort_code_and_then:
  assumes "abort_code m = None" and "\<And>x. abort_code (f x) = None"
  shows "abort_code (and_then m f) = None"
proof (cases m rule: abort_code.cases)
  case (1 t code)
  with assms(1) show ?thesis by simp
next
  case (2 t e)
  then show ?thesis by simp
next
  case (3 t x)
  have "abort_code (t @ fst (f x), snd (f x)) = abort_code (f x)"
    by (cases "f x" rule: abort_code.cases) simp_all
  with 3 assms(2) show ?thesis by simp
qed

lemma abort_code_for_each:
  assumes "\<And>x. abort_code (f x) = None"
  shows "abort_code (for_each f xs) = None"
  by (induction xs) (simp_all add: assms abort_code_and_then)

lemma abort_code_log [simp]:
  "abort_code (logger_info msg) = None" "abort_code (logger_warning msg) = None"
  by (simp_all add: logger_info_def logger_warning_def emit_def)

lemma abort_code_headers_getitem [simp]: "abort_code (headers_getitem hs k) = None"
  by (simp add: headers_getitem_def split: option.splits)

lemma abort_code_write_combined [simp]: "abort_code (write_combined lib docs) = None"
  by (simp add: write_combined_def abort_code_and_then)

lemma abort_code_generate: "abort_code (generate lib req) = None"
  unfolding generate_def Let_def
  by (intro abort_code_and_then) (simp_all add: abort_code_and_then abort_code_for_each)

lemma abort_code_multiple: "abort_code (multiple lib req) = None"
  unfolding multiple_def Let_def
  by (intro abort_code_and_then abort_code_for_each) simp_all

lemma abort_code_zip2pdf_render:
  "abort_code (zip2pdf_render lib fs htmls csss) = (if htmls = [] then Some 400 else None)"
  by (simp add: zip2pdf_render_def abort_def abort_code_and_then abort_code_for_each)

lemma http_status_snd:
  "http_status m =
     (case snd m of Inr r \<Rightarrow> status r | Inl (Abort code) \<Rightarrow> code | Inl (Uncaught e) \<Rightarrow> 500)"
  by (cases m rule: http_status.cases) simp_all

lemma abort_code_Some: "abort_code m = Some code \<longleftrightarrow> snd m = Inl (Abort code)"
  by (cases m rule: abort_code.cases) auto

section \<open>Archives\<close>

lemma zip2pdf_extracted:
  assumes "mkdtemp lib ''weasyprint-'' = Inr d"
      and "zip_extractall lib (req_data req) d = Inr fs"
  shows "zip2pdf lib req =
     (let name = args_get (req_args req) ''filename'' ''unnamed.pdf'';
          rendered = zip2pdf_render lib fs (glob_recursive d fs ''.html'')
                       (glob_recursive d fs ''.css'')
      in and_then
           (Logged INFO (''POST  /zip2pdf?filename='' @ name) # TempDirCreated d
              # Extracted (req_data req) d # fst rendered @ [TempDirRemoved d], snd rendered)
           (\<lambda>pdf. and_then (lib_call (pdf_response pdf name))
              (\<lambda>response.
                 and_then (logger_info ('' ==> POST  /zip2pdf?filename='' @ name @ ''  ok''))
                   (\<lambda>_. succeed response))))"
  using assms
  apply (simp add: zip2pdf_def Let_def with_temporary_directory_def extract_zip_def split: prod.splits)
  apply (auto simp: and_then_def split: sum.splits prod.splits)
  done


lemma zip2pdf_no_tempdir:
  assumes "mkdtemp lib ''weasyprint-'' = Inl e"
  shows "zip2pdf lib req =
     ([Logged INFO (''POST  /zip2pdf?filename=''
         @ args_get (req_args req) ''filename'' ''unnamed.pdf'')], Inl (Uncaught e))"
  using assms by (simp add: zip2pdf_def Let_def with_temporary_directory_def)

lemma zip2pdf_bad_archive:
  assumes "mkdtemp lib ''weasyprint-'' = Inr d"
      and "zip_extractall lib (req_data req) d = Inl e"
  shows "zip2pdf lib req =
     ([Logged INFO (''POST  /zip2pdf?filename=''
         @ args_get (req_args req) ''filename'' ''unnamed.pdf''),
       TempDirCreated d, TempDirRemoved d], Inl (Uncaught e))"
  using assms
  by (simp add: zip2pdf_def Let_def with_temporary_directory_def extract_zip_def throw_def)

lemma abort_code_zip2pdf_extracted:
  assumes "mkdtemp lib ''weasyprint-'' = Inr d"
      and "zip_extractall lib (req_data req) d = Inr fs"
  shows "abort_code (zip2pdf lib req) =
     (if glob_recursive d fs ''.html'' = [] then Some 400 else None)"
proof -
  let ?rendered = "zip2pdf_render lib fs (glob_recursive d fs ''.html'')
                       (glob_recursive d fs ''.css'')"
  have r: "abort_code ?rendered =
      (if glob_recursive d fs ''.html'' = [] then Some 400 else None)"
    by (rule abort_code_zip2pdf_render)
  show ?thesis
  proof (cases "snd ?rendered")
    case (Inl e)
    then show ?thesis
      using r abort_code_snd [of ?rendered]
      by (simp add: zip2pdf_extracted [OF assms] Let_def abort_code_Inl)
  next
    case (Inr pdf)
    show ?thesis
    proof (cases "header_safe (args_get (req_args req) ''filename'' ''unnamed.pdf'')")
      case True
      with Inr show ?thesis
        using r abort_code_snd [of ?rendered]
        by (simp add: zip2pdf_extracted [OF assms] Let_def pdf_response_safe)
    next
      case False
      with Inr show ?thesis
        using r abort_code_snd [of ?rendered]
        by (simp add: zip2pdf_extracted [OF assms] Let_def pdf_response_unsafe throw_def
            abort_code_Inl)
    qed
  qed
qed

lemma zip2pdf_status:
  assumes "snd (zip2pdf lib req) = Inr r"
  shows "status r = 200"
proof (cases "mkdtemp lib ''weasyprint-''")
  case (Inl e)
  with assms show ?thesis by (simp add: zip2pdf_no_tempdir)
next
  case d: (Inr d)
  show ?thesis
  proof (cases "zip_extractall lib (req_data req) d")
    case (Inl e)
    with assms d show ?thesis by (simp add: zip2pdf_bad_archive)
  next
    case (Inr fs)
    with assms d show ?thesis
      by (auto simp: zip2pdf_extracted Let_def snd_and_then_Inr dest: pdf_response_Inr)
  qed
qed



text \<open>What the glob leaves out, and that it takes a directory as it takes a file.\<close>

lemma glob_skips_hidden_file:
  assumes "ishidden n"
  shows "glob_recursive root (File n c # rest) ext = glob_recursive root rest ext"
  using assms by (simp add: glob_recursive_def glob1_def)

lemma glob_skips_hidden_directory:
  assumes "ishidden n"
  shows "glob_recursive root (Dir n cs # rest) ext = glob_recursive root rest ext"
  using assms by (simp add: glob_recursive_def glob1_def)

lemma glob_takes_directory:
  assumes "\<not> ishidden n" and "ends_with ext n"
  shows "path_join (path_join root []) n \<in> set (glob_recursive root (Dir n cs # rest) ext)"
  using assms by (simp add: glob_recursive_def glob1_def)

lemma glob_takes_file:
  assumes "\<not> ishidden n" and "ends_with ext n"
  shows "path_join (path_join root []) n \<in> set (glob_recursive root (File n c # rest) ext)"
  using assms by (simp add: glob_recursive_def glob1_def)





section \<open>Error statuses\<close>

lemma for_each_all2:
  "list_all2 (\<lambda>x y. f x = succeed y) xs ys \<Longrightarrow> for_each f xs = succeed ys"
  by (induction xs ys rule: list_all2_induct) simp_all

lemma for_each_fails:
  assumes "list_all2 (\<lambda>x y. f x = succeed y) pre ys" and "f x = throw e"
  shows "for_each f (pre @ x # post) = throw e"
  using assms by (induction pre ys rule: list_all2_induct) simp_all

lemma render_one_succeeds:
  assumes "\<exists>h. mk x = Inr h \<and> render lib h = Inr doc"
  shows "and_then (lib_call (mk x)) (\<lambda>h. lib_call (render lib h)) = succeed doc"
  using assms by auto

lemma render_one_fails:
  assumes "mk x = Inl e \<or> (\<exists>h. mk x = Inr h \<and> render lib h = Inl e)"
  shows "and_then (lib_call (mk x)) (\<lambda>h. lib_call (render lib h)) = throw (Uncaught e)"
  using assms by auto

lemma render_all_succeeds:
  assumes "list_all2 (\<lambda>x doc. \<exists>h. mk x = Inr h \<and> render lib h = Inr doc) xs docs"
  shows "for_each (\<lambda>x. and_then (lib_call (mk x)) (\<lambda>h. lib_call (render lib h))) xs
           = succeed docs"
  by (rule for_each_all2) (rule list_all2_mono [OF assms], rule render_one_succeeds)

lemma render_all_fails:
  assumes "list_all2 (\<lambda>x doc. \<exists>h. mk x = Inr h \<and> render lib h = Inr doc) pre docs"
      and "mk x = Inl e \<or> (\<exists>h. mk x = Inr h \<and> render lib h = Inl e)"
  shows "for_each (\<lambda>x. and_then (lib_call (mk x)) (\<lambda>h. lib_call (render lib h)))
           (pre @ x # post) = throw (Uncaught e)"
proof (rule for_each_fails)
  show "list_all2
          (\<lambda>x y. and_then (lib_call (mk x)) (\<lambda>h. lib_call (render lib h)) = succeed y) pre docs"
    by (rule list_all2_mono [OF assms(1)]) (rule render_one_succeeds)
  show "and_then (lib_call (mk x)) (\<lambda>h. lib_call (render lib h)) = throw (Uncaught e)"
    using assms(2) by (rule render_one_fails)
qed

lemma load_all_succeeds:
  assumes "list_all2 (\<lambda>x y. mk x = Inr y) xs ys"
  shows "for_each (\<lambda>x. lib_call (mk x)) xs = succeed ys"
  by (rule for_each_all2) (rule list_all2_mono [OF assms], simp)

lemma write_combined_fails:
  assumes "docs \<noteq> []"
      and "document_write_pdf lib (copy (hd docs) (concat (map pages docs))) = Inl e"
  shows "write_combined lib docs = throw (Uncaught e)"
  using assms by (cases docs) (simp_all add: write_combined_def)

subsection \<open>Failures of \<open>generate\<close>\<close>

lemma malformed_json_generate:
  assumes "req_headers req ''Content-Type'' = Some ''application/json''"
      and "utf8_decode lib (req_data req) = Inr decoded" and "json_loads lib decoded = Inl e"
  shows "snd (generate lib req) = Inl (Uncaught e)"
  using assms by (simp add: generate_def Let_def headers_getitem_def)

lemma generate_json_parse_error:
  assumes "req_headers req ''Content-Type'' = Some ''application/json''"
      and "utf8_decode lib (req_data req) = Inr decoded" and "json_loads lib decoded = Inr j"
      and "subscript j ''html'' = Inr h" and "HTML_string lib h = Inl e"
  shows "snd (generate lib req) = Inl (Uncaught e)"
  using assms by (simp add: generate_def Let_def headers_getitem_def)

lemma generate_json_write_error:
  assumes "req_headers req ''Content-Type'' = Some ''application/json''"
      and "utf8_decode lib (req_data req) = Inr decoded" and "json_loads lib decoded = Inr j"
      and "subscript j ''html'' = Inr h" and "HTML_string lib h = Inr html"
      and "subscript j ''css'' = Inr c" and "iterate c = Inr sheets"
      and "list_all2 (\<lambda>sheet x. CSS_string lib sheet = Inr x) sheets css"
      and "write_pdf lib html (Some css) = Inl e"
  shows "snd (generate lib req) = Inl (Uncaught e)"
  using assms(1-7,9) load_all_succeeds [OF assms(8)]
  by (simp add: generate_def Let_def headers_getitem_def)

lemma generate_raw_parse_error:
  assumes "req_headers req ''Content-Type'' = Some ctype" and "ctype \<noteq> ''application/json''"
      and "utf8_decode lib (req_data req) = Inr decoded"
      and "HTML_string lib (JStr decoded) = Inl e"
  shows "snd (generate lib req) = Inl (Uncaught e)"
  using assms by (simp add: generate_def Let_def headers_getitem_def)

lemma generate_raw_write_error:
  assumes "req_headers req ''Content-Type'' = Some ctype" and "ctype \<noteq> ''application/json''"
      and "utf8_decode lib (req_data req) = Inr decoded"
      and "HTML_string lib (JStr decoded) = Inr html" and "write_pdf lib html None = Inl e"
  shows "snd (generate lib req) = Inl (Uncaught e)"
  using assms by (simp add: generate_def Let_def headers_getitem_def)

subsection \<open>Failures of \<open>multiple\<close>\<close>

lemma malformed_json_multiple:
  assumes "utf8_decode lib (req_data req) = Inr decoded" and "json_loads lib decoded = Inl e"
  shows "snd (multiple lib req) = Inl (Uncaught e)"
  using assms by (simp add: multiple_def Let_def)

lemma multiple_element_error:
  assumes "utf8_decode lib (req_data req) = Inr decoded"
      and "json_loads lib decoded = Inr htmls" and "iterate htmls = Inr (pre @ x # post)"
      and "list_all2 (\<lambda>y doc. \<exists>h. HTML_string lib y = Inr h \<and> render lib h = Inr doc) pre docs"
      and "HTML_string lib x = Inl e \<or> (\<exists>h. HTML_string lib x = Inr h \<and> render lib h = Inl e)"
  shows "snd (multiple lib req) = Inl (Uncaught e)"
  using assms(1-3) render_all_fails [OF assms(4,5), of post]
  by (simp add: multiple_def Let_def)

lemma multiple_write_error:
  assumes "utf8_decode lib (req_data req) = Inr decoded"
      and "json_loads lib decoded = Inr htmls" and "iterate htmls = Inr items"
      and "list_all2 (\<lambda>y doc. \<exists>h. HTML_string lib y = Inr h \<and> render lib h = Inr doc) items docs"
      and "docs \<noteq> []"
      and "document_write_pdf lib (copy (hd docs) (concat (map pages docs))) = Inl e"
  shows "snd (multiple lib req) = Inl (Uncaught e)"
  using assms(1-3) render_all_succeeds [OF assms(4)] write_combined_fails [OF assms(5,6)]
  by (simp add: multiple_def Let_def)

subsection \<open>Failures of \<open>zip2pdf\<close>\<close>

lemma zip2pdf_render_fails:
  assumes "mkdtemp lib ''weasyprint-'' = Inr d"
      and "zip_extractall lib (req_data req) d = Inr fs"
      and "zip2pdf_render lib fs (glob_recursive d fs ''.html'') (glob_recursive d fs ''.css'')
             = throw f"
  shows "snd (zip2pdf lib req) = Inl f"
  using assms(3) by (simp add: zip2pdf_extracted [OF assms(1,2)] Let_def)

lemma zip2pdf_single_open_error:
  assumes "HTML_filename lib fs h = Inl e"
  shows "zip2pdf_render lib fs [h] csss = throw (Uncaught e)"
  using assms by (simp add: zip2pdf_render_def)

lemma zip2pdf_single_sheet_error:
  assumes "HTML_filename lib fs h = Inr html"
      and "list_all2 (\<lambda>sheet x. CSS_filename lib fs sheet = Inr x) pre css"
      and "CSS_filename lib fs sheet = Inl e"
  shows "zip2pdf_render lib fs [h] (pre @ sheet # post) = throw (Uncaught e)"
proof -
  have "for_each (\<lambda>s. lib_call (CSS_filename lib fs s)) (pre @ sheet # post)
          = throw (Uncaught e)"
    by (rule for_each_fails [where ys = css])
       (rule list_all2_mono [OF assms(2)], simp, simp add: assms(3))
  with assms(1) show ?thesis by (simp add: zip2pdf_render_def)
qed

lemma zip2pdf_single_write_error:
  assumes "HTML_filename lib fs h = Inr html"
      and "list_all2 (\<lambda>sheet x. CSS_filename lib fs sheet = Inr x) csss css"
      and "write_pdf lib html (Some css) = Inl e"
  shows "zip2pdf_render lib fs [h] csss = throw (Uncaught e)"
  using assms(1,3) load_all_succeeds [OF assms(2)] by (simp add: zip2pdf_render_def)

lemma zip2pdf_many_element_error:
  assumes "2 \<le> length (pre @ x # post)"
      and "list_all2 (\<lambda>y doc. \<exists>h. HTML_filename lib fs y = Inr h \<and> render lib h = Inr doc)
             pre docs"
      and "HTML_filename lib fs x = Inl e
           \<or> (\<exists>h. HTML_filename lib fs x = Inr h \<and> render lib h = Inl e)"
  shows "zip2pdf_render lib fs (pre @ x # post) csss = throw (Uncaught e)"
proof -
  from assms(1) have "\<not> (pre = [] \<and> post = [])" by auto
  with render_all_fails [OF assms(2,3), of post] show ?thesis
    by (auto simp: zip2pdf_render_def)
qed

lemma zip2pdf_many_write_error:
  assumes "2 \<le> length htmls"
      and "list_all2 (\<lambda>y doc. \<exists>h. HTML_filename lib fs y = Inr h \<and> render lib h = Inr doc)
             htmls docs"
      and "document_write_pdf lib (copy (hd docs) (concat (map pages docs))) = Inl e"
  shows "zip2pdf_render lib fs htmls csss = throw (Uncaught e)"
proof -
  from assms(1) have ne: "htmls \<noteq> []" "length htmls \<noteq> 1" by auto
  with assms(2) have "docs \<noteq> []" by (auto simp: list_all2_conv_all_nth)
  from write_combined_fails [OF this assms(3)] render_all_succeeds [OF assms(2)] ne
  show ?thesis unfolding zip2pdf_render_def by simp
qed


lemma zip2pdf_corrupt:
  assumes "mkdtemp lib ''weasyprint-'' = Inr d"
      and "zip_extractall lib (req_data req) d = Inl e"
  shows "snd (zip2pdf lib req) = Inl (Uncaught e)"
  using assms by (simp add: zip2pdf_bad_archive)

lemma zip2pdf_one_open:
  assumes "mkdtemp lib ''weasyprint-'' = Inr d"
      and "zip_extractall lib (req_data req) d = Inr fs"
      and "glob_recursive d fs ''.html'' = [p]"
      and "HTML_filename lib fs p = Inl e"
  shows "snd (zip2pdf lib req) = Inl (Uncaught e)"
  by (rule zip2pdf_render_fails [OF assms(1,2)])
     (simp add: assms(3) zip2pdf_single_open_error [OF assms(4)])

lemma zip2pdf_one_sheet:
  assumes "mkdtemp lib ''weasyprint-'' = Inr d"
      and "zip_extractall lib (req_data req) d = Inr fs"
      and "glob_recursive d fs ''.html'' = [p]"
      and "HTML_filename lib fs p = Inr html"
      and "glob_recursive d fs ''.css'' = cpre @ sheet # cpost"
      and "list_all2 (\<lambda>sheet x. CSS_filename lib fs sheet = Inr x) cpre css"
      and "CSS_filename lib fs sheet = Inl e"
  shows "snd (zip2pdf lib req) = Inl (Uncaught e)"
  by (rule zip2pdf_render_fails [OF assms(1,2)])
     (simp add: assms(3,5) zip2pdf_single_sheet_error [OF assms(4,6,7)])

lemma zip2pdf_one_write:
  assumes "mkdtemp lib ''weasyprint-'' = Inr d"
      and "zip_extractall lib (req_data req) d = Inr fs"
      and "glob_recursive d fs ''.html'' = [p]"
      and "HTML_filename lib fs p = Inr html"
      and "list_all2 (\<lambda>sheet x. CSS_filename lib fs sheet = Inr x)
             (glob_recursive d fs ''.css'') css"
      and "write_pdf lib html (Some css) = Inl e"
  shows "snd (zip2pdf lib req) = Inl (Uncaught e)"
  by (rule zip2pdf_render_fails [OF assms(1,2)])
     (simp add: assms(3) zip2pdf_single_write_error [OF assms(4,5,6)])

lemma zip2pdf_many_element:
  assumes "mkdtemp lib ''weasyprint-'' = Inr d"
      and "zip_extractall lib (req_data req) d = Inr fs"
      and "glob_recursive d fs ''.html'' = ppre @ p # ppost"
      and "2 \<le> length (glob_recursive d fs ''.html'')"
      and "list_all2 (\<lambda>y doc. \<exists>h. HTML_filename lib fs y = Inr h \<and> render lib h = Inr doc)
             ppre docs"
      and "HTML_filename lib fs p = Inl e
           \<or> (\<exists>h. HTML_filename lib fs p = Inr h \<and> render lib h = Inl e)"
  shows "snd (zip2pdf lib req) = Inl (Uncaught e)"
proof (rule zip2pdf_render_fails [OF assms(1,2)])
  from assms(4) have "2 \<le> length (ppre @ p # ppost)" by (simp only: assms(3))
  from zip2pdf_many_element_error [OF this assms(5,6)]
  show "zip2pdf_render lib fs (glob_recursive d fs ''.html'') (glob_recursive d fs ''.css'')
          = throw (Uncaught e)"
    by (simp only: assms(3))
qed

lemma zip2pdf_many_write:
  assumes "mkdtemp lib ''weasyprint-'' = Inr d"
      and "zip_extractall lib (req_data req) d = Inr fs"
      and "2 \<le> length (glob_recursive d fs ''.html'')"
      and "list_all2 (\<lambda>y doc. \<exists>h. HTML_filename lib fs y = Inr h \<and> render lib h = Inr doc)
             (glob_recursive d fs ''.html'') docs"
      and "document_write_pdf lib (copy (hd docs) (concat (map pages docs))) = Inl e"
  shows "snd (zip2pdf lib req) = Inl (Uncaught e)"
  by (rule zip2pdf_render_fails [OF assms(1,2)]) (rule zip2pdf_many_write_error [OF assms(3,4,5)])

lemma zip2pdf_success:
  assumes "snd (zip2pdf lib req) = Inr r"
  shows "\<exists>d fs pdf.
     mkdtemp lib ''weasyprint-'' = Inr d
     \<and> zip_extractall lib (req_data req) d = Inr fs
     \<and> glob_recursive d fs ''.html'' \<noteq> []
     \<and> (if length (glob_recursive d fs ''.html'') = 1
        then \<exists>html css. HTML_filename lib fs (glob_recursive d fs ''.html'' ! 0) = Inr html
               \<and> list_all2 (\<lambda>sheet x. CSS_filename lib fs sheet = Inr x)
                    (glob_recursive d fs ''.css'') css
               \<and> write_pdf lib html (Some css) = Inr pdf
        else \<exists>docs.
               list_all2 (\<lambda>y doc. \<exists>h. HTML_filename lib fs y = Inr h \<and> render lib h = Inr doc)
                 (glob_recursive d fs ''.html'') docs
               \<and> document_write_pdf lib (copy (hd docs) (concat (map pages docs))) = Inr pdf)
     \<and> pdf_response pdf (args_get (req_args req) ''filename'' ''unnamed.pdf'') = Inr r"
proof (cases "mkdtemp lib ''weasyprint-''")
  case (Inl e)
  with assms show ?thesis by (simp add: zip2pdf_no_tempdir)
next
  case d: (Inr d)
  show ?thesis
  proof (cases "zip_extractall lib (req_data req) d")
    case (Inl e)
    with assms d show ?thesis by (simp add: zip2pdf_bad_archive)
  next
    case fs: (Inr fs)
    from assms obtain pdf where
      rendered: "snd (zip2pdf_render lib fs (glob_recursive d fs ''.html'')
                   (glob_recursive d fs ''.css'')) = Inr pdf"
      and resp: "pdf_response pdf (args_get (req_args req) ''filename'' ''unnamed.pdf'') = Inr r"
      by (auto simp: zip2pdf_extracted [OF d fs] Let_def snd_and_then_Inr)
    from zip2pdf_render_success [OF rendered] resp d fs show ?thesis by blast
  qed
qed

lemma generate_status: "snd (generate lib req) = Inr r \<Longrightarrow> status r = 200"
  by (drule generate_success) (auto dest: pdf_response_Inr)

lemma multiple_status: "snd (multiple lib req) = Inr r \<Longrightarrow> status r = 200"
  by (drule multiple_success) (auto dest: pdf_response_Inr)

lemma abort_code_zip2pdf:
  assumes "abort_code (zip2pdf lib req) = Some code"
  shows "code = 400
         \<and> (\<exists>d fs. mkdtemp lib ''weasyprint-'' = Inr d
               \<and> zip_extractall lib (req_data req) d = Inr fs
               \<and> glob_recursive d fs ''.html'' = [])"
proof (cases "mkdtemp lib ''weasyprint-''")
  case (Inl e)
  with assms show ?thesis by (simp add: zip2pdf_no_tempdir)
next
  case d: (Inr d)
  show ?thesis
  proof (cases "zip_extractall lib (req_data req) d")
    case (Inl e)
    with assms d show ?thesis by (simp add: zip2pdf_bad_archive)
  next
    case (Inr fs)
    with assms d show ?thesis
      by (simp add: abort_code_zip2pdf_extracted split: if_splits)
  qed
qed

lemma abort_code_authenticate:
  "abort_code (authenticate environ f req) =
     (if checkauth_passes environ req then abort_code (f req) else Some 401)"
  by (simp add: authenticate_def abort_def)

lemma authenticate_status:
  assumes "\<And>r. snd (f req) = Inr r \<Longrightarrow> status r = 200"
      and "snd (authenticate environ f req) = Inr r"
  shows "status r = 200"
  using assms by (simp add: authenticate_def abort_def split: if_splits)

lemma run_view_status:
  assumes "snd (run_view lib environ v req) = Inr r"
  shows "status r = 200"
proof (cases v)
  case Index
  with assms show ?thesis by (auto simp: index_def make_response_def)
next
  case Home
  with assms show ?thesis by (auto simp: home_def make_response_def)
next
  case Generate
  with assms show ?thesis
    using authenticate_status [where f = "generate lib" and req = req and r = r
        and environ = environ] generate_status [of lib req]
    by simp
next
  case Multiple
  with assms show ?thesis
    using authenticate_status [where f = "multiple lib" and req = req and r = r
        and environ = environ] multiple_status [of lib req]
    by simp
next
  case Zip2pdf
  with assms show ?thesis
    using authenticate_status [where f = "zip2pdf lib" and req = req and r = r
        and environ = environ] zip2pdf_status [of lib req]
    by simp
qed

lemma run_view_abort:
  assumes "snd (run_view lib environ v req) = Inl (Abort code)"
  shows "(code = 401 \<and> v \<in> {Generate, Multiple, Zip2pdf} \<and> \<not> checkauth_passes environ req)
         \<or> (code = 400 \<and> v = Zip2pdf \<and> checkauth_passes environ req
             \<and> (\<exists>d fs. mkdtemp lib ''weasyprint-'' = Inr d
                   \<and> zip_extractall lib (req_data req) d = Inr fs
                   \<and> glob_recursive d fs ''.html'' = []))"
proof -
  from assms have ac: "abort_code (run_view lib environ v req) = Some code"
    by (simp add: abort_code_Some)
  show ?thesis
  proof (cases v)
    case Index
    with ac show ?thesis by (simp add: index_def)
  next
    case Home
    with ac show ?thesis by (simp add: home_def)
  next
    case Generate
    with ac show ?thesis
      by (simp add: abort_code_authenticate abort_code_generate split: if_splits)
  next
    case Multiple
    with ac show ?thesis
      by (simp add: abort_code_authenticate abort_code_multiple split: if_splits)
  next
    case Zip2pdf
    show ?thesis
    proof (cases "checkauth_passes environ req")
      case True
      with ac Zip2pdf have "abort_code (zip2pdf lib req) = Some code"
        by (simp add: abort_code_authenticate)
      from abort_code_zip2pdf [OF this] True Zip2pdf show ?thesis by simp
    next
      case False
      with ac Zip2pdf show ?thesis by (simp add: abort_code_authenticate)
    qed
  qed
qed

subsection \<open>The parts of the claim\<close>

lemma outcome_classes:
  "(case snd (run_view lib environ v req) of
      Inr r \<Rightarrow> status r = 200
    | Inl (Abort code) \<Rightarrow>
        (code = 401 \<and> v \<in> {Generate, Multiple, Zip2pdf} \<and> \<not> checkauth_passes environ req)
        \<or> (code = 400 \<and> v = Zip2pdf \<and> checkauth_passes environ req
            \<and> (\<exists>d fs. mkdtemp lib ''weasyprint-'' = Inr d
                  \<and> zip_extractall lib (req_data req) d = Inr fs
                  \<and> glob_recursive d fs ''.html'' = []))
    | Inl (Uncaught e) \<Rightarrow> http_status (run_view lib environ v req) = 500)"
proof (cases "snd (run_view lib environ v req)")
  case (Inr r)
  then show ?thesis using run_view_status [of lib environ v req r] by simp
next
  case (Inl f)
  show ?thesis
  proof (cases f)
    case (Abort code)
    with Inl show ?thesis using run_view_abort [of lib environ v req code] by simp
  next
    case (Uncaught e)
    with Inl show ?thesis by (simp add: http_status_snd)
  qed
qed

lemma generate_responds_only_if:
  "(snd (run_view lib environ Generate req) = Inr r \<longrightarrow>
      checkauth_passes environ req
      \<and> (\<exists>ctype decoded pdf.
            req_headers req ''Content-Type'' = Some ctype
            \<and> utf8_decode lib (req_data req) = Inr decoded
            \<and> (if ctype = ''application/json''
               then \<exists>j h html c sheets css.
                      json_loads lib decoded = Inr j \<and> subscript j ''html'' = Inr h
                      \<and> HTML_string lib h = Inr html \<and> subscript j ''css'' = Inr c
                      \<and> iterate c = Inr sheets
                      \<and> list_all2 (\<lambda>sheet x. CSS_string lib sheet = Inr x) sheets css
                      \<and> write_pdf lib html (Some css) = Inr pdf
               else \<exists>html. HTML_string lib (JStr decoded) = Inr html
                      \<and> write_pdf lib html None = Inr pdf)
            \<and> pdf_response pdf (args_get (req_args req) ''filename'' ''unnamed.pdf'') = Inr r))"
  using generate_success [of lib req r]
  by (simp add: authenticate_def split: if_splits)

lemma multiple_responds_only_if:
  "(snd (run_view lib environ Multiple req) = Inr r \<longrightarrow>
      checkauth_passes environ req
      \<and> (\<exists>decoded htmls items docs pdf.
            utf8_decode lib (req_data req) = Inr decoded
            \<and> json_loads lib decoded = Inr htmls \<and> iterate htmls = Inr items
            \<and> list_all2 (\<lambda>y doc. \<exists>h. HTML_string lib y = Inr h \<and> render lib h = Inr doc) items docs
            \<and> docs \<noteq> []
            \<and> document_write_pdf lib (copy (hd docs) (concat (map pages docs))) = Inr pdf
            \<and> pdf_response pdf (args_get (req_args req) ''filename'' ''unnamed.pdf'') = Inr r))"
  using multiple_success [of lib req r]
  by (simp add: authenticate_def split: if_splits)

lemma zip2pdf_responds_only_if:
  "(snd (run_view lib environ Zip2pdf req) = Inr r \<longrightarrow>
      checkauth_passes environ req
      \<and> (\<exists>d fs pdf.
            mkdtemp lib ''weasyprint-'' = Inr d
            \<and> zip_extractall lib (req_data req) d = Inr fs
            \<and> glob_recursive d fs ''.html'' \<noteq> []
            \<and> (if length (glob_recursive d fs ''.html'') = 1
               then \<exists>html css. HTML_filename lib fs (glob_recursive d fs ''.html'' ! 0) = Inr html
                      \<and> list_all2 (\<lambda>sheet x. CSS_filename lib fs sheet = Inr x) (glob_recursive d fs ''.css'') css
                      \<and> write_pdf lib html (Some css) = Inr pdf
               else \<exists>docs.
                      list_all2 (\<lambda>y doc. \<exists>h. HTML_filename lib fs y = Inr h \<and> render lib h = Inr doc) (glob_recursive d fs ''.html'') docs
                      \<and> document_write_pdf lib (copy (hd docs) (concat (map pages docs)))
                          = Inr pdf)
            \<and> pdf_response pdf (args_get (req_args req) ''filename'' ''unnamed.pdf'') = Inr r))"
  using zip2pdf_success [of lib req r]
  by (simp add: authenticate_def split: if_splits)

lemma multiple_malformed_json:
  "(checkauth_passes environ req
      \<and> utf8_decode lib (req_data req) = Inr decoded
      \<and> json_loads lib decoded = Inl e
    \<longrightarrow> snd (run_view lib environ Multiple req) = Inl (Uncaught e))"
  by (auto simp: authenticate_def intro: malformed_json_multiple)

lemma multiple_render_error:
  "(checkauth_passes environ req
      \<and> utf8_decode lib (req_data req) = Inr decoded
      \<and> json_loads lib decoded = Inr htmls
      \<and> iterate htmls = Inr (pre @ x # post)
      \<and> list_all2 (\<lambda>y doc. \<exists>h. HTML_string lib y = Inr h \<and> render lib h = Inr doc) pre docs
      \<and> (HTML_string lib x = Inl e \<or> (\<exists>h. HTML_string lib x = Inr h \<and> render lib h = Inl e))
    \<longrightarrow> snd (run_view lib environ Multiple req) = Inl (Uncaught e))"
  by (auto simp: authenticate_def intro: multiple_element_error)

lemma multiple_write_pdf_error:
  "(checkauth_passes environ req
      \<and> utf8_decode lib (req_data req) = Inr decoded
      \<and> json_loads lib decoded = Inr htmls
      \<and> iterate htmls = Inr items
      \<and> list_all2 (\<lambda>y doc. \<exists>h. HTML_string lib y = Inr h \<and> render lib h = Inr doc) items docs
      \<and> docs \<noteq> []
      \<and> document_write_pdf lib (copy (hd docs) (concat (map pages docs))) = Inl e
    \<longrightarrow> snd (run_view lib environ Multiple req) = Inl (Uncaught e))"
  by (auto simp: authenticate_def intro: multiple_write_error)

lemma generate_malformed_json:
  "(checkauth_passes environ req
      \<and> req_headers req ''Content-Type'' = Some ''application/json''
      \<and> utf8_decode lib (req_data req) = Inr decoded
      \<and> json_loads lib decoded = Inl e
    \<longrightarrow> snd (run_view lib environ Generate req) = Inl (Uncaught e))"
  by (auto simp: authenticate_def intro: malformed_json_generate)

lemma generate_json_html_error:
  "(checkauth_passes environ req
      \<and> req_headers req ''Content-Type'' = Some ''application/json''
      \<and> utf8_decode lib (req_data req) = Inr decoded
      \<and> json_loads lib decoded = Inr j
      \<and> subscript j ''html'' = Inr h
      \<and> HTML_string lib h = Inl e
    \<longrightarrow> snd (run_view lib environ Generate req) = Inl (Uncaught e))"
  by (auto simp: authenticate_def intro: generate_json_parse_error)

lemma generate_json_write_pdf_error:
  "(checkauth_passes environ req
      \<and> req_headers req ''Content-Type'' = Some ''application/json''
      \<and> utf8_decode lib (req_data req) = Inr decoded
      \<and> json_loads lib decoded = Inr j
      \<and> subscript j ''html'' = Inr h
      \<and> HTML_string lib h = Inr html
      \<and> subscript j ''css'' = Inr c
      \<and> iterate c = Inr sheets
      \<and> list_all2 (\<lambda>sheet x. CSS_string lib sheet = Inr x) sheets css
      \<and> write_pdf lib html (Some css) = Inl e
    \<longrightarrow> snd (run_view lib environ Generate req) = Inl (Uncaught e))"
  by (auto simp: authenticate_def intro: generate_json_write_error)

lemma generate_raw_html_error:
  "(checkauth_passes environ req
      \<and> req_headers req ''Content-Type'' = Some ctype
      \<and> ctype \<noteq> ''application/json''
      \<and> utf8_decode lib (req_data req) = Inr decoded
      \<and> HTML_string lib (JStr decoded) = Inl e
    \<longrightarrow> snd (run_view lib environ Generate req) = Inl (Uncaught e))"
  by (auto simp: authenticate_def intro: generate_raw_parse_error)

lemma generate_raw_write_pdf_error:
  "(checkauth_passes environ req
      \<and> req_headers req ''Content-Type'' = Some ctype
      \<and> ctype \<noteq> ''application/json''
      \<and> utf8_decode lib (req_data req) = Inr decoded
      \<and> HTML_string lib (JStr decoded) = Inr html
      \<and> write_pdf lib html None = Inl e
    \<longrightarrow> snd (run_view lib environ Generate req) = Inl (Uncaught e))"
  by (auto simp: authenticate_def intro: generate_raw_write_error)

lemma zip2pdf_corrupt_archive:
  "(checkauth_passes environ req
      \<and> mkdtemp lib ''weasyprint-'' = Inr d
      \<and> zip_extractall lib (req_data req) d = Inl e
    \<longrightarrow> snd (run_view lib environ Zip2pdf req) = Inl (Uncaught e))"
  by (auto simp: authenticate_def intro: zip2pdf_corrupt)

lemma zip2pdf_one_html_error:
  "(checkauth_passes environ req
      \<and> mkdtemp lib ''weasyprint-'' = Inr d
      \<and> zip_extractall lib (req_data req) d = Inr fs
      \<and> glob_recursive d fs ''.html'' = [p]
      \<and> HTML_filename lib fs p = Inl e
    \<longrightarrow> snd (run_view lib environ Zip2pdf req) = Inl (Uncaught e))"
  by (auto simp: authenticate_def intro: zip2pdf_one_open)

lemma zip2pdf_one_css_error:
  "(checkauth_passes environ req
      \<and> mkdtemp lib ''weasyprint-'' = Inr d
      \<and> zip_extractall lib (req_data req) d = Inr fs
      \<and> glob_recursive d fs ''.html'' = [p]
      \<and> HTML_filename lib fs p = Inr html
      \<and> glob_recursive d fs ''.css'' = cpre @ sheet # cpost
      \<and> list_all2 (\<lambda>sheet x. CSS_filename lib fs sheet = Inr x) cpre css
      \<and> CSS_filename lib fs sheet = Inl e
    \<longrightarrow> snd (run_view lib environ Zip2pdf req) = Inl (Uncaught e))"
  by (auto simp: authenticate_def intro: zip2pdf_one_sheet)

lemma zip2pdf_one_write_pdf_error:
  "(checkauth_passes environ req
      \<and> mkdtemp lib ''weasyprint-'' = Inr d
      \<and> zip_extractall lib (req_data req) d = Inr fs
      \<and> glob_recursive d fs ''.html'' = [p]
      \<and> HTML_filename lib fs p = Inr html
      \<and> list_all2 (\<lambda>sheet x. CSS_filename lib fs sheet = Inr x) (glob_recursive d fs ''.css'') css
      \<and> write_pdf lib html (Some css) = Inl e
    \<longrightarrow> snd (run_view lib environ Zip2pdf req) = Inl (Uncaught e))"
  by (auto simp: authenticate_def intro: zip2pdf_one_write)

lemma zip2pdf_many_render_error:
  "(checkauth_passes environ req
      \<and> mkdtemp lib ''weasyprint-'' = Inr d
      \<and> zip_extractall lib (req_data req) d = Inr fs
      \<and> glob_recursive d fs ''.html'' = ppre @ p # ppost
      \<and> 2 \<le> length (glob_recursive d fs ''.html'')
      \<and> list_all2 (\<lambda>y doc. \<exists>h. HTML_filename lib fs y = Inr h \<and> render lib h = Inr doc) ppre docs
      \<and> (HTML_filename lib fs p = Inl e \<or> (\<exists>h. HTML_filename lib fs p = Inr h \<and> render lib h = Inl e))
    \<longrightarrow> snd (run_view lib environ Zip2pdf req) = Inl (Uncaught e))"
  by (auto simp: authenticate_def intro: zip2pdf_many_element)

lemma zip2pdf_many_write_pdf_error:
  "(checkauth_passes environ req
      \<and> mkdtemp lib ''weasyprint-'' = Inr d
      \<and> zip_extractall lib (req_data req) d = Inr fs
      \<and> 2 \<le> length (glob_recursive d fs ''.html'')
      \<and> list_all2 (\<lambda>y doc. \<exists>h. HTML_filename lib fs y = Inr h \<and> render lib h = Inr doc) (glob_recursive d fs ''.html'') docs
      \<and> document_write_pdf lib (copy (hd docs) (concat (map pages docs))) = Inl e
    \<longrightarrow> snd (run_view lib environ Zip2pdf req) = Inl (Uncaught e))"
  by (auto simp: authenticate_def intro: zip2pdf_many_write)

text \<open>
  C7. Whatever the libraries do, a view ends in one of four ways: a response with status 200;
  \<^verbatim>\<open>abort(401)\<close>, only from \<open>checkauth\<close> in front of the three rendering views; \<^verbatim>\<open>abort(400)\<close>,
  only from \<open>zip2pdf\<close> when the glob finds no HTML path in the extracted archive; or an
  uncaught exception, which is answered 500. No failure is turned into a response: a
  rendering view answers only if every library call it made returned, and a failure of
  \<^verbatim>\<open>json.loads\<close> (malformed JSON), of the extraction (corrupt archive), or of a constructor,
  \<^verbatim>\<open>render\<close> or \<^verbatim>\<open>write_pdf\<close> call (rendering error) in any of the three views ends the view with
  that exception, uncaught.
\<close>

theorem error_statuses:
  "(case snd (run_view lib environ v req) of
        Inr r \<Rightarrow> status r = 200
      | Inl (Abort code) \<Rightarrow>
          (code = 401 \<and> v \<in> {Generate, Multiple, Zip2pdf} \<and> \<not> checkauth_passes environ req)
          \<or> (code = 400 \<and> v = Zip2pdf \<and> checkauth_passes environ req
              \<and> (\<exists>d fs. mkdtemp lib ''weasyprint-'' = Inr d
                    \<and> zip_extractall lib (req_data req) d = Inr fs
                    \<and> glob_recursive d fs ''.html'' = []))
      | Inl (Uncaught e) \<Rightarrow> http_status (run_view lib environ v req) = 500)
   \<and> (snd (run_view lib environ Generate req) = Inr r \<longrightarrow>
        checkauth_passes environ req
        \<and> (\<exists>ctype decoded pdf.
              req_headers req ''Content-Type'' = Some ctype
              \<and> utf8_decode lib (req_data req) = Inr decoded
              \<and> (if ctype = ''application/json''
                 then \<exists>j h html c sheets css.
                        json_loads lib decoded = Inr j \<and> subscript j ''html'' = Inr h
                        \<and> HTML_string lib h = Inr html \<and> subscript j ''css'' = Inr c
                        \<and> iterate c = Inr sheets
                        \<and> list_all2 (\<lambda>sheet x. CSS_string lib sheet = Inr x) sheets css
                        \<and> write_pdf lib html (Some css) = Inr pdf
                 else \<exists>html. HTML_string lib (JStr decoded) = Inr html
                        \<and> write_pdf lib html None = Inr pdf)
              \<and> pdf_response pdf (args_get (req_args req) ''filename'' ''unnamed.pdf'') = Inr r))
   \<and> (snd (run_view lib environ Multiple req) = Inr r \<longrightarrow>
        checkauth_passes environ req
        \<and> (\<exists>decoded htmls items docs pdf.
              utf8_decode lib (req_data req) = Inr decoded
              \<and> json_loads lib decoded = Inr htmls \<and> iterate htmls = Inr items
              \<and> list_all2 (\<lambda>y doc. \<exists>h. HTML_string lib y = Inr h \<and> render lib h = Inr doc) items docs
              \<and> docs \<noteq> []
              \<and> document_write_pdf lib (copy (hd docs) (concat (map pages docs))) = Inr pdf
              \<and> pdf_response pdf (args_get (req_args req) ''filename'' ''unnamed.pdf'') = Inr r))
   \<and> (snd (run_view lib environ Zip2pdf req) = Inr r \<longrightarrow>
        checkauth_passes environ req
        \<and> (\<exists>d fs pdf.
              mkdtemp lib ''weasyprint-'' = Inr d
              \<and> zip_extractall lib (req_data req) d = Inr fs
              \<and> glob_recursive d fs ''.html'' \<noteq> []
              \<and> (if length (glob_recursive d fs ''.html'') = 1
                 then \<exists>html css. HTML_filename lib fs (glob_recursive d fs ''.html'' ! 0) = Inr html
                        \<and> list_all2 (\<lambda>sheet x. CSS_filename lib fs sheet = Inr x) (glob_recursive d fs ''.css'') css
                        \<and> write_pdf lib html (Some css) = Inr pdf
                 else \<exists>docs.
                        list_all2 (\<lambda>y doc. \<exists>h. HTML_filename lib fs y = Inr h \<and> render lib h = Inr doc) (glob_recursive d fs ''.html'') docs
                        \<and> document_write_pdf lib (copy (hd docs) (concat (map pages docs)))
                            = Inr pdf)
              \<and> pdf_response pdf (args_get (req_args req) ''filename'' ''unnamed.pdf'') = Inr r))
   \<and> (checkauth_passes environ req
        \<and> utf8_decode lib (req_data req) = Inr decoded
        \<and> json_loads lib decoded = Inl e
      \<longrightarrow> snd (run_view lib environ Multiple req) = Inl (Uncaught e))
   \<and> (checkauth_passes environ req
        \<and> utf8_decode lib (req_data req) = Inr decoded
        \<and> json_loads lib decoded = Inr htmls
        \<and> iterate htmls = Inr (pre @ x # post)
        \<and> list_all2 (\<lambda>y doc. \<exists>h. HTML_string lib y = Inr h \<and> render lib h = Inr doc) pre docs
        \<and> (HTML_string lib x = Inl e \<or> (\<exists>h. HTML_string lib x = Inr h \<and> render lib h = Inl e))
      \<longrightarrow> snd (run_view lib environ Multiple req) = Inl (Uncaught e))
   \<and> (checkauth_passes environ req
        \<and> utf8_decode lib (req_data req) = Inr decoded
        \<and> json_loads lib decoded = Inr htmls
        \<and> iterate htmls = Inr items
        \<and> list_all2 (\<lambda>y doc. \<exists>h. HTML_string lib y = Inr h \<and> render lib h = Inr doc) items docs
        \<and> docs \<noteq> []
        \<and> document_write_pdf lib (copy (hd docs) (concat (map pages docs))) = Inl e
      \<longrightarrow> snd (run_view lib environ Multiple req) = Inl (Uncaught e))
   \<and> (checkauth_passes environ req
        \<and> req_headers req ''Content-Type'' = Some ''application/json''
        \<and> utf8_decode lib (req_data req) = Inr decoded
        \<and> json_loads lib decoded = Inl e
      \<longrightarrow> snd (run_view lib environ Generate req) = Inl (Uncaught e))
   \<and> (checkauth_passes environ req
        \<and> req_headers req ''Content-Type'' = Some ''application/json''
        \<and> utf8_decode lib (req_data req) = Inr decoded
        \<and> json_loads lib decoded = Inr j
        \<and> subscript j ''html'' = Inr h
        \<and> HTML_string lib h = Inl e
      \<longrightarrow> snd (run_view lib environ Generate req) = Inl (Uncaught e))
   \<and> (checkauth_passes environ req
        \<and> req_headers req ''Content-Type'' = Some ''application/json''
        \<and> utf8_decode lib (req_data req) = Inr decoded
        \<and> json_loads lib decoded = Inr j
        \<and> subscript j ''html'' = Inr h
        \<and> HTML_string lib h = Inr html
        \<and> subscript j ''css'' = Inr c
        \<and> iterate c = Inr sheets
        \<and> list_all2 (\<lambda>sheet x. CSS_string lib sheet = Inr x) sheets css
        \<and> write_pdf lib html (Some css) = Inl e
      \<longrightarrow> snd (run_view lib environ Generate req) = Inl (Uncaught e))
   \<and> (checkauth_passes environ req
        \<and> req_headers req ''Content-Type'' = Some ctype
        \<and> ctype \<noteq> ''application/json''
        \<and> utf8_decode lib (req_data req) = Inr decoded
        \<and> HTML_string lib (JStr decoded) = Inl e
      \<longrightarrow> snd (run_view lib environ Generate req) = Inl (Uncaught e))
   \<and> (checkauth_passes environ req
        \<and> req_headers req ''Content-Type'' = Some ctype
        \<and> ctype \<noteq> ''application/json''
        \<and> utf8_decode lib (req_data req) = Inr decoded
        \<and> HTML_string lib (JStr decoded) = Inr html
        \<and> write_pdf lib html None = Inl e
      \<longrightarrow> snd (run_view lib environ Generate req) = Inl (Uncaught e))
   \<and> (checkauth_passes environ req
        \<and> mkdtemp lib ''weasyprint-'' = Inr d
        \<and> zip_extractall lib (req_data req) d = Inl e
      \<longrightarrow> snd (run_view lib environ Zip2pdf req) = Inl (Uncaught e))
   \<and> (checkauth_passes environ req
        \<and> mkdtemp lib ''weasyprint-'' = Inr d
        \<and> zip_extractall lib (req_data req) d = Inr fs
        \<and> glob_recursive d fs ''.html'' = [p]
        \<and> HTML_filename lib fs p = Inl e
      \<longrightarrow> snd (run_view lib environ Zip2pdf req) = Inl (Uncaught e))
   \<and> (checkauth_passes environ req
        \<and> mkdtemp lib ''weasyprint-'' = Inr d
        \<and> zip_extractall lib (req_data req) d = Inr fs
        \<and> glob_recursive d fs ''.html'' = [p]
        \<and> HTML_filename lib fs p = Inr html
        \<and> glob_recursive d fs ''.css'' = cpre @ sheet # cpost
        \<and> list_all2 (\<lambda>sheet x. CSS_filename lib fs sheet = Inr x) cpre css
        \<and> CSS_filename lib fs sheet = Inl e
      \<longrightarrow> snd (run_view lib environ Zip2pdf req) = Inl (Uncaught e))
   \<and> (checkauth_passes environ req
        \<and> mkdtemp lib ''weasyprint-'' = Inr d
        \<and> zip_extractall lib (req_data req) d = Inr fs
        \<and> glob_recursive d fs ''.html'' = [p]
        \<and> HTML_filename lib fs p = Inr html
        \<and> list_all2 (\<lambda>sheet x. CSS_filename lib fs sheet = Inr x) (glob_recursive d fs ''.css'') css
        \<and> write_pdf lib html (Some css) = Inl e
      \<longrightarrow> snd (run_view lib environ Zip2pdf req) = Inl (Uncaught e))
   \<and> (checkauth_passes environ req
        \<and> mkdtemp lib ''weasyprint-'' = Inr d
        \<and> zip_extractall lib (req_data req) d = Inr fs
        \<and> glob_recursive d fs ''.html'' = ppre @ p # ppost
        \<and> 2 \<le> length (glob_recursive d fs ''.html'')
        \<and> list_all2 (\<lambda>y doc. \<exists>h. HTML_filename lib fs y = Inr h \<and> render lib h = Inr doc) ppre docs
        \<and> (HTML_filename lib fs p = Inl e \<or> (\<exists>h. HTML_filename lib fs p = Inr h \<and> render lib h = Inl e))
      \<longrightarrow> snd (run_view lib environ Zip2pdf req) = Inl (Uncaught e))
   \<and> (checkauth_passes environ req
        \<and> mkdtemp lib ''weasyprint-'' = Inr d
        \<and> zip_extractall lib (req_data req) d = Inr fs
        \<and> 2 \<le> length (glob_recursive d fs ''.html'')
        \<and> list_all2 (\<lambda>y doc. \<exists>h. HTML_filename lib fs y = Inr h \<and> render lib h = Inr doc) (glob_recursive d fs ''.html'') docs
        \<and> document_write_pdf lib (copy (hd docs) (concat (map pages docs))) = Inl e
      \<longrightarrow> snd (run_view lib environ Zip2pdf req) = Inl (Uncaught e))"
  by (intro conjI)
     (rule outcome_classes,
      rule generate_responds_only_if,
      rule multiple_responds_only_if,
      rule zip2pdf_responds_only_if,
      rule multiple_malformed_json,
      rule multiple_render_error,
      rule multiple_write_pdf_error,
      rule generate_malformed_json,
      rule generate_json_html_error,
      rule generate_json_write_pdf_error,
      rule generate_raw_html_error,
      rule generate_raw_write_pdf_error,
      rule zip2pdf_corrupt_archive,
      rule zip2pdf_one_html_error,
      rule zip2pdf_one_css_error,
      rule zip2pdf_one_write_pdf_error,
      rule zip2pdf_many_render_error,
      rule zip2pdf_many_write_pdf_error)


theorem error_statuses_witness:
  "snd (run_view (sample_library JNull []) Map.empty Zip2pdf
          \<lparr>req_method = ''POST'', req_path = ''/zip2pdf'', req_headers = Map.empty,
           req_args = Map.empty, req_body = ''PK'', req_data = ''PK''\<rparr>) = Inl (Abort 400)
   \<and> checkauth_passes Map.empty
          \<lparr>req_method = ''POST'', req_path = ''/zip2pdf'', req_headers = Map.empty,
           req_args = Map.empty, req_body = ''PK'', req_data = ''PK''\<rparr>
   \<and> snd (run_view (sample_library JNull []) Map.empty Multiple
          \<lparr>req_method = ''POST'', req_path = ''/multiple'', req_headers = Map.empty,
           req_args = Map.empty, req_body = [], req_data = []\<rparr>)
       = Inl (Uncaught (LibraryError ''JSONDecodeError''))
   \<and> snd (run_view
          ((sample_library JNull [File ''a.html'' ''<p>a</p>''])
             \<lparr>write_pdf := (\<lambda>html css. Inl (LibraryError ''layout''))\<rparr>)
          Map.empty Zip2pdf
          \<lparr>req_method = ''POST'', req_path = ''/zip2pdf'', req_headers = Map.empty,
           req_args = Map.empty, req_body = ''PK'', req_data = ''PK''\<rparr>)
       = Inl (Uncaught (LibraryError ''layout''))"
  using
    error_statuses [where lib = "sample_library JNull []" and environ = Map.empty
      and v = Zip2pdf
      and req = "\<lparr>req_method = ''POST'', req_path = ''/zip2pdf'', req_headers = Map.empty,
           req_args = Map.empty, req_body = ''PK'', req_data = ''PK''\<rparr>",
      THEN conjunct1]
    error_statuses [where lib = "sample_library JNull []"
      and environ = Map.empty and v = Multiple and decoded = "[]"
      and e = "LibraryError ''JSONDecodeError''"
      and req = "\<lparr>req_method = ''POST'', req_path = ''/multiple'', req_headers = Map.empty,
           req_args = Map.empty, req_body = [], req_data = []\<rparr>",
      THEN conjunct2, THEN conjunct2, THEN conjunct2, THEN conjunct2, THEN conjunct1]
    error_statuses [where lib = "(sample_library JNull [File ''a.html'' ''<p>a</p>''])
             \<lparr>write_pdf := (\<lambda>html css. Inl (LibraryError ''layout''))\<rparr>"
      and environ = Map.empty and v = Zip2pdf and d = "''/tmp/weasyprint-0''"
      and fs = "[File ''a.html'' ''<p>a</p>'']" and p = "''/tmp/weasyprint-0/a.html''"
      and html = "''<p>a</p>''" and css = "[]"
      and e = "LibraryError ''layout''"
      and req = "\<lparr>req_method = ''POST'', req_path = ''/zip2pdf'', req_headers = Map.empty,
           req_args = Map.empty, req_body = ''PK'', req_data = ''PK''\<rparr>",
      THEN conjunct2, THEN conjunct2, THEN conjunct2, THEN conjunct2, THEN conjunct2, THEN conjunct2, THEN conjunct2, THEN conjunct2, THEN conjunct2, THEN conjunct2, THEN conjunct2, THEN conjunct2, THEN conjunct2, THEN conjunct2, THEN conjunct2, THEN conjunct1]
  by (simp add: checkauth_passes_def sample_library_def authenticate_def zip2pdf_def Let_def
      with_temporary_directory_def extract_zip_def zip2pdf_render_def abort_def throw_def
      args_get_def path_join_def glob_recursive_def glob1_def ishidden_def ends_with_def
      multiple_def)

section \<open>Concatenating rendered documents\<close>

lemma for_each_map_succeeds:
  "\<forall>x\<in>set xs. f (k x) = succeed (g x) \<Longrightarrow> for_each f (map k xs) = succeed (map g xs)"
  by (induction xs) simp_all

lemma write_combined_nonempty:
  assumes "docs \<noteq> []"
  shows "write_combined lib docs =
           pdf_written (document_write_pdf lib (copy (hd docs) (concat (map pages docs))))"
  using assms by (cases docs) (simp_all add: write_combined_def)

lemma pages_copy [simp]: "pages (copy doc ps) = ps"
  by (simp add: copy_def)

lemma serve_multiple:
  assumes "checkauth_passes environ req"
      and "req_method req = ''POST''" and "req_path req = ''/multiple''"
  shows "serve lib environ req = Some (multiple lib req)"
  using assms by (simp add: serve_def route_def authenticate_def)

lemma multiple_rendered:
  assumes "utf8_decode lib (req_data req) = Inr decoded"
      and "json_loads lib decoded = Inr (JArr (map JStr hs))" and "hs \<noteq> []"
      and "\<forall>h\<in>set hs. HTML_string lib (JStr h) = Inr (H h) \<and> render lib (H h) = Inr (D h)"
  shows "multiple lib req =
     (let name = args_get (req_args req) ''filename'' ''unnamed.pdf'' in
      and_then (logger_info (''POST  /multiple?filename='' @ name)) (\<lambda>_.
      and_then
        (pdf_written (document_write_pdf lib
           (copy (D (hd hs)) (concat (map (\<lambda>h. pages (D h)) hs))))) (\<lambda>pdf.
      and_then (lib_call (pdf_response pdf name)) (\<lambda>response.
      and_then (logger_info ('' ==> POST  /multiple?filename='' @ name @ ''  ok'')) (\<lambda>_.
      succeed response)))))"
proof -
  have "for_each
          (\<lambda>html. and_then (lib_call (HTML_string lib html)) (\<lambda>h. lib_call (render lib h)))
          (map JStr hs) = succeed (map D hs)"
    by (rule for_each_map_succeeds) (use assms(4) in simp)
  moreover have "write_combined lib (map D hs) =
      pdf_written (document_write_pdf lib
           (copy (D (hd hs)) (concat (map (\<lambda>h. pages (D h)) hs))))"
    using assms(3) by (simp add: write_combined_nonempty hd_map comp_def)
  ultimately show ?thesis
    using assms(1,2) by (simp add: multiple_def Let_def)
qed

text \<open>
  C5, as amended. For an authorized POST to \<^verbatim>\<open>/multiple\<close> whose \<^verbatim>\<open>request.data\<close> is a non-empty
  JSON array of HTML strings, each element \<open>h\<close> is turned into an HTML object and rendered on
  its own (\<open>D h\<close>), and the document that is written as the PDF has the pages of these
  documents in array order: all pages of the first element, then those of the second, and
  so on. The response carries that PDF when the file name of the query string holds no
  carriage return or line feed; otherwise the PDF is written and setting the header raises.
\<close>

theorem multiple_concatenates:
  assumes "checkauth_passes environ req"
      and "req_method req = ''POST''" and "req_path req = ''/multiple''"
      and "utf8_decode lib (req_data req) = Inr decoded"
      and "json_loads lib decoded = Inr (JArr (map JStr hs))" and "hs \<noteq> []"
      and "\<forall>h\<in>set hs. HTML_string lib (JStr h) = Inr (H h) \<and> render lib (H h) = Inr (D h)"
      and "name = args_get (req_args req) ''filename'' ''unnamed.pdf''"
  shows "serve lib environ req = Some (multiple lib req)
     \<and> pages (copy (D (hd hs)) (concat (map (\<lambda>h. pages (D h)) hs)))
         = concat (map (\<lambda>h. pages (D h)) hs)
     \<and> (document_write_pdf lib (copy (D (hd hs)) (concat (map (\<lambda>h. pages (D h)) hs))) = Inr pdf
          \<longrightarrow> multiple lib req =
                (if header_safe name
                 then ([Logged INFO (''POST  /multiple?filename='' @ name), PdfWritten pdf,
                        Logged INFO ('' ==> POST  /multiple?filename='' @ name @ ''  ok'')],
                       Inr \<lparr>status = 200,
                            headers = [''Content-Type'' \<mapsto> ''application/pdf'',
                                       ''Content-Disposition'' \<mapsto> ''inline;filename='' @ name],
                            body = pdf\<rparr>)
                 else ([Logged INFO (''POST  /multiple?filename='' @ name), PdfWritten pdf],
                       Inl (Uncaught ValueError))))
     \<and> (document_write_pdf lib (copy (D (hd hs)) (concat (map (\<lambda>h. pages (D h)) hs))) = Inl e
          \<longrightarrow> snd (multiple lib req) = Inl (Uncaught e))"
proof (intro conjI impI)
  show "serve lib environ req = Some (multiple lib req)"
    using assms(1-3) by (rule serve_multiple)
next
  show "pages (copy (D (hd hs)) (concat (map (\<lambda>h. pages (D h)) hs)))
         = concat (map (\<lambda>h. pages (D h)) hs)"
    by simp
next
  assume "document_write_pdf lib (copy (D (hd hs)) (concat (map (\<lambda>h. pages (D h)) hs))) = Inr pdf"
  then show "multiple lib req =
                (if header_safe name
                 then ([Logged INFO (''POST  /multiple?filename='' @ name), PdfWritten pdf,
                        Logged INFO ('' ==> POST  /multiple?filename='' @ name @ ''  ok'')],
                       Inr \<lparr>status = 200,
                            headers = [''Content-Type'' \<mapsto> ''application/pdf'',
                                       ''Content-Disposition'' \<mapsto> ''inline;filename='' @ name],
                            body = pdf\<rparr>)
                 else ([Logged INFO (''POST  /multiple?filename='' @ name), PdfWritten pdf],
                       Inl (Uncaught ValueError)))"
    unfolding assms(8)
    by (simp add: multiple_rendered [OF assms(4-7)] Let_def pdf_response_safe
        pdf_response_unsafe throw_def)
next
  assume "document_write_pdf lib (copy (D (hd hs)) (concat (map (\<lambda>h. pages (D h)) hs))) = Inl e"
  then show "snd (multiple lib req) = Inl (Uncaught e)"
    by (simp add: multiple_rendered [OF assms(4-7)] Let_def)
qed

theorem multiple_concatenates_witness:
  "serve (sample_library (JArr [JStr ''<p>a</p>'', JStr ''<p>b</p>'']) []) Map.empty
     \<lparr>req_method = ''POST'', req_path = ''/multiple'',
      req_headers = [''Content-Type'' \<mapsto> ''application/json''],
      req_args = [''filename'' \<mapsto> ''two.pdf''],
      req_body = ''[\"<p>a</p>\", \"<p>b</p>\"]'', req_data = ''[\"<p>a</p>\", \"<p>b</p>\"]''\<rparr>
   = Some ([Logged INFO ''POST  /multiple?filename=two.pdf'',
            PdfWritten ''%PDF:<p>a</p><p>b</p>'',
            Logged INFO '' ==> POST  /multiple?filename=two.pdf  ok''],
           Inr \<lparr>status = 200,
                headers = [''Content-Type'' \<mapsto> ''application/pdf'',
                           ''Content-Disposition'' \<mapsto> ''inline;filename=two.pdf''],
                body = ''%PDF:<p>a</p><p>b</p>''\<rparr>)"
  using multiple_concatenates [where environ = Map.empty
      and lib = "sample_library (JArr [JStr ''<p>a</p>'', JStr ''<p>b</p>'']) []"
      and req = "\<lparr>req_method = ''POST'', req_path = ''/multiple'',
        req_headers = [''Content-Type'' \<mapsto> ''application/json''],
        req_args = [''filename'' \<mapsto> ''two.pdf''],
        req_body = ''[\"<p>a</p>\", \"<p>b</p>\"]'',
        req_data = ''[\"<p>a</p>\", \"<p>b</p>\"]''\<rparr>"
      and decoded = "''[\"<p>a</p>\", \"<p>b</p>\"]''" and hs = "[''<p>a</p>'', ''<p>b</p>'']"
      and H = "\<lambda>h. h" and D = "\<lambda>h. \<lparr>pages = [h], metadata = ()\<rparr>"
      and pdf = "''%PDF:<p>a</p><p>b</p>''" and name = "''two.pdf''"]
  by (simp add: checkauth_passes_def sample_library_def args_get_def copy_def)

text \<open>
  C5 as stated, about the body of the request, does not hold: a body that is a JSON array of
  one HTML string, sent with the content type \<^verbatim>\<open>application/x-www-form-urlencoded\<close>, reaches
  the view with an empty \<^verbatim>\<open>request.data\<close>, since Flask has parsed the body as a form.
  \<^verbatim>\<open>json.loads\<close> then fails on the empty text: nothing is rendered and the answer is 500.
\<close>

theorem multiple_form_body_not_rendered:
  "json_loads (sample_library (JArr [JStr ''<p>a</p>'']) [])
       (req_body
          \<lparr>req_method = ''POST'', req_path = ''/multiple'',
           req_headers = [''Content-Type'' \<mapsto> ''application/x-www-form-urlencoded''],
           req_args = Map.empty, req_body = ''[\"<p>a</p>\"]'', req_data = []\<rparr>)
     = Inr (JArr [JStr ''<p>a</p>''])
   \<and> checkauth_passes Map.empty
          \<lparr>req_method = ''POST'', req_path = ''/multiple'',
           req_headers = [''Content-Type'' \<mapsto> ''application/x-www-form-urlencoded''],
           req_args = Map.empty, req_body = ''[\"<p>a</p>\"]'', req_data = []\<rparr>
   \<and> serve (sample_library (JArr [JStr ''<p>a</p>'']) []) Map.empty
          \<lparr>req_method = ''POST'', req_path = ''/multiple'',
           req_headers = [''Content-Type'' \<mapsto> ''application/x-www-form-urlencoded''],
           req_args = Map.empty, req_body = ''[\"<p>a</p>\"]'', req_data = []\<rparr>
     = Some ([Logged INFO ''POST  /multiple?filename=unnamed.pdf''],
             Inl (Uncaught (LibraryError ''JSONDecodeError'')))
   \<and> http_status ([Logged INFO ''POST  /multiple?filename=unnamed.pdf''],
             Inl (Uncaught (LibraryError ''JSONDecodeError''))) = 500"
  by (simp add: serve_def route_def authenticate_def checkauth_passes_def multiple_def
      Let_def args_get_def sample_library_def)

section \<open>Style sheets of an archive\<close>








section \<open>One document\<close>

lemma serve_generate:
  assumes "checkauth_passes environ req"
      and "req_method req = ''POST''" and "req_path req = ''/pdf''"
  shows "serve lib environ req = Some (generate lib req)"
  using assms by (simp add: serve_def route_def authenticate_def)

lemma generate_json:
  assumes "req_headers req ''Content-Type'' = Some ''application/json''"
      and "utf8_decode lib (req_data req) = Inr decoded"
      and "json_loads lib decoded = Inr (JObj kvs)"
      and "map_of kvs ''html'' = Some (JStr h)"
      and "map_of kvs ''css'' = Some (JArr (map JStr sheets))"
      and "HTML_string lib (JStr h) = Inr html"
      and "\<forall>s\<in>set sheets. CSS_string lib (JStr s) = Inr (C s)"
      and "write_pdf lib html (Some (map C sheets)) = Inr pdf"
      and "name = args_get (req_args req) ''filename'' ''unnamed.pdf''"
  shows "generate lib req =
           (if header_safe name
            then ([Logged INFO (''POST  /pdf?filename='' @ name), PdfWritten pdf,
                   Logged INFO ('' ==> POST  /pdf?filename='' @ name @ ''  ok'')],
                  Inr \<lparr>status = 200,
                       headers = [''Content-Type'' \<mapsto> ''application/pdf'',
                                  ''Content-Disposition'' \<mapsto> ''inline;filename='' @ name],
                       body = pdf\<rparr>)
            else ([Logged INFO (''POST  /pdf?filename='' @ name), PdfWritten pdf],
                  Inl (Uncaught ValueError)))"
proof -
  have "for_each (\<lambda>sheet. lib_call (CSS_string lib sheet)) (map JStr sheets)
          = succeed (map C sheets)"
    by (rule for_each_map_succeeds) (use assms(7) in simp)
  with assms(1-6,8) show ?thesis
    unfolding assms(9)
    by (simp add: generate_def Let_def headers_getitem_def pdf_response_safe
        pdf_response_unsafe throw_def)
qed

lemma generate_raw:
  assumes "req_headers req ''Content-Type'' = Some ctype" and "ctype \<noteq> ''application/json''"
      and "utf8_decode lib (req_data req) = Inr decoded"
      and "HTML_string lib (JStr decoded) = Inr html"
      and "write_pdf lib html None = Inr pdf"
      and "name = args_get (req_args req) ''filename'' ''unnamed.pdf''"
  shows "generate lib req =
           (if header_safe name
            then ([Logged INFO (''POST  /pdf?filename='' @ name), PdfWritten pdf,
                   Logged INFO ('' ==> POST  /pdf?filename='' @ name @ ''  ok'')],
                  Inr \<lparr>status = 200,
                       headers = [''Content-Type'' \<mapsto> ''application/pdf'',
                                  ''Content-Disposition'' \<mapsto> ''inline;filename='' @ name],
                       body = pdf\<rparr>)
            else ([Logged INFO (''POST  /pdf?filename='' @ name), PdfWritten pdf],
                  Inl (Uncaught ValueError)))"
  using assms(1-5) unfolding assms(6)
  by (simp add: generate_def Let_def headers_getitem_def pdf_response_safe
      pdf_response_unsafe throw_def)

text \<open>
  C6, as amended. For an authorized POST to \<^verbatim>\<open>/pdf\<close> that carries a \<^verbatim>\<open>Content-Type\<close> header,
  \<^verbatim>\<open>request.data\<close> is parsed as JSON \<^verbatim>\<open>{"html": ..., "css": [...]}\<close> exactly when that header
  equals \<^verbatim>\<open>application/json\<close> (malformed JSON is then an uncaught exception, not raw HTML) and
  is rendered as raw HTML otherwise, without any style sheet. On success, and when the file
  name of the query string holds no carriage return or line feed, the response has status
  200, \<^verbatim>\<open>Content-Type: application/pdf\<close>, \<^verbatim>\<open>Content-Disposition: inline;filename=<name>\<close> and the
  rendered PDF as its body; with such a character in the name the PDF is written and
  setting the header raises.
\<close>

theorem generate_by_content_type:
  assumes "checkauth_passes environ req"
      and "req_method req = ''POST''" and "req_path req = ''/pdf''"
      and "req_headers req ''Content-Type'' = Some ctype"
      and "utf8_decode lib (req_data req) = Inr decoded"
      and "name = args_get (req_args req) ''filename'' ''unnamed.pdf''"
  shows "serve lib environ req = Some (generate lib req)
     \<and> (ctype = ''application/json'' \<and> json_loads lib decoded = Inr (JObj kvs)
          \<and> map_of kvs ''html'' = Some (JStr h)
          \<and> map_of kvs ''css'' = Some (JArr (map JStr sheets))
          \<and> HTML_string lib (JStr h) = Inr html
          \<and> (\<forall>s\<in>set sheets. CSS_string lib (JStr s) = Inr (C s))
          \<and> write_pdf lib html (Some (map C sheets)) = Inr pdf
        \<longrightarrow> generate lib req =
              (if header_safe name
               then ([Logged INFO (''POST  /pdf?filename='' @ name), PdfWritten pdf,
                      Logged INFO ('' ==> POST  /pdf?filename='' @ name @ ''  ok'')],
                     Inr \<lparr>status = 200,
                          headers = [''Content-Type'' \<mapsto> ''application/pdf'',
                                     ''Content-Disposition'' \<mapsto> ''inline;filename='' @ name],
                          body = pdf\<rparr>)
               else ([Logged INFO (''POST  /pdf?filename='' @ name), PdfWritten pdf],
                     Inl (Uncaught ValueError))))
     \<and> (ctype = ''application/json'' \<and> json_loads lib decoded = Inl e
        \<longrightarrow> snd (generate lib req) = Inl (Uncaught e))
     \<and> (ctype \<noteq> ''application/json'' \<and> HTML_string lib (JStr decoded) = Inr raw_html
          \<and> write_pdf lib raw_html None = Inr raw_pdf
        \<longrightarrow> generate lib req =
              (if header_safe name
               then ([Logged INFO (''POST  /pdf?filename='' @ name), PdfWritten raw_pdf,
                      Logged INFO ('' ==> POST  /pdf?filename='' @ name @ ''  ok'')],
                     Inr \<lparr>status = 200,
                          headers = [''Content-Type'' \<mapsto> ''application/pdf'',
                                     ''Content-Disposition'' \<mapsto> ''inline;filename='' @ name],
                          body = raw_pdf\<rparr>)
               else ([Logged INFO (''POST  /pdf?filename='' @ name), PdfWritten raw_pdf],
                     Inl (Uncaught ValueError))))"
proof (intro conjI impI)
  show "serve lib environ req = Some (generate lib req)"
    using assms(1-3) by (rule serve_generate)
next
  assume j: "ctype = ''application/json'' \<and> json_loads lib decoded = Inr (JObj kvs)
          \<and> map_of kvs ''html'' = Some (JStr h)
          \<and> map_of kvs ''css'' = Some (JArr (map JStr sheets))
          \<and> HTML_string lib (JStr h) = Inr html
          \<and> (\<forall>s\<in>set sheets. CSS_string lib (JStr s) = Inr (C s))
          \<and> write_pdf lib html (Some (map C sheets)) = Inr pdf"
  with assms(4) have ct: "req_headers req ''Content-Type'' = Some ''application/json''"
    by simp
  from j show "generate lib req =
              (if header_safe name
               then ([Logged INFO (''POST  /pdf?filename='' @ name), PdfWritten pdf,
                      Logged INFO ('' ==> POST  /pdf?filename='' @ name @ ''  ok'')],
                     Inr \<lparr>status = 200,
                          headers = [''Content-Type'' \<mapsto> ''application/pdf'',
                                     ''Content-Disposition'' \<mapsto> ''inline;filename='' @ name],
                          body = pdf\<rparr>)
               else ([Logged INFO (''POST  /pdf?filename='' @ name), PdfWritten pdf],
                     Inl (Uncaught ValueError)))"
    by (intro generate_json [where h = h and sheets = sheets and html = html and C = C,
          OF ct assms(5) _ _ _ _ _ _ assms(6)]) blast+
next
  assume "ctype = ''application/json'' \<and> json_loads lib decoded = Inl e"
  then show "snd (generate lib req) = Inl (Uncaught e)"
    using assms(4,5) by (simp add: malformed_json_generate)
next
  assume r: "ctype \<noteq> ''application/json'' \<and> HTML_string lib (JStr decoded) = Inr raw_html
          \<and> write_pdf lib raw_html None = Inr raw_pdf"
  then show "generate lib req =
              (if header_safe name
               then ([Logged INFO (''POST  /pdf?filename='' @ name), PdfWritten raw_pdf,
                      Logged INFO ('' ==> POST  /pdf?filename='' @ name @ ''  ok'')],
                     Inr \<lparr>status = 200,
                          headers = [''Content-Type'' \<mapsto> ''application/pdf'',
                                     ''Content-Disposition'' \<mapsto> ''inline;filename='' @ name],
                          body = raw_pdf\<rparr>)
               else ([Logged INFO (''POST  /pdf?filename='' @ name), PdfWritten raw_pdf],
                     Inl (Uncaught ValueError)))"
    by (intro generate_raw [where html = raw_html, OF assms(4) _ assms(5) _ _ assms(6)])
       blast+
qed

theorem generate_by_content_type_witness:
  "serve (sample_library
            (JObj [(''html'', JStr ''<p>x</p>''), (''css'', JArr [JStr ''p{}''])]) [])
     [''X_API_KEY'' \<mapsto> ''secret'']
     \<lparr>req_method = ''POST'', req_path = ''/pdf'',
      req_headers = [''X_API_KEY'' \<mapsto> ''secret'', ''Content-Type'' \<mapsto> ''application/json''],
      req_args = [''filename'' \<mapsto> ''x.pdf''], req_body = ''{...}'', req_data = ''{...}''\<rparr>
   = Some ([Logged INFO ''POST  /pdf?filename=x.pdf'', PdfWritten ''%PDF:<p>x</p>p{}'',
            Logged INFO '' ==> POST  /pdf?filename=x.pdf  ok''],
           Inr \<lparr>status = 200,
                headers = [''Content-Type'' \<mapsto> ''application/pdf'',
                           ''Content-Disposition'' \<mapsto> ''inline;filename=x.pdf''],
                body = ''%PDF:<p>x</p>p{}''\<rparr>)
   \<and> serve (sample_library JNull []) [''X_API_KEY'' \<mapsto> ''secret'']
     \<lparr>req_method = ''POST'', req_path = ''/pdf'',
      req_headers = [''X_API_KEY'' \<mapsto> ''secret'', ''Content-Type'' \<mapsto> ''text/html''],
      req_args = Map.empty, req_body = ''<p>y</p>'', req_data = ''<p>y</p>''\<rparr>
   = Some ([Logged INFO ''POST  /pdf?filename=unnamed.pdf'', PdfWritten ''%PDF:<p>y</p>'',
            Logged INFO '' ==> POST  /pdf?filename=unnamed.pdf  ok''],
           Inr \<lparr>status = 200,
                headers = [''Content-Type'' \<mapsto> ''application/pdf'',
                           ''Content-Disposition'' \<mapsto> ''inline;filename=unnamed.pdf''],
                body = ''%PDF:<p>y</p>''\<rparr>)"
  using
    generate_by_content_type [where environ = "[''X_API_KEY'' \<mapsto> ''secret'']"
      and lib = "sample_library
            (JObj [(''html'', JStr ''<p>x</p>''), (''css'', JArr [JStr ''p{}''])]) []"
      and req = "\<lparr>req_method = ''POST'', req_path = ''/pdf'',
        req_headers = [''X_API_KEY'' \<mapsto> ''secret'', ''Content-Type'' \<mapsto> ''application/json''],
        req_args = [''filename'' \<mapsto> ''x.pdf''], req_body = ''{...}'', req_data = ''{...}''\<rparr>"
      and ctype = "''application/json''" and decoded = "''{...}''" and name = "''x.pdf''"
      and kvs = "[(''html'', JStr ''<p>x</p>''), (''css'', JArr [JStr ''p{}''])]"
      and h = "''<p>x</p>''" and sheets = "[''p{}'']" and html = "''<p>x</p>''"
      and C = "\<lambda>s. s" and pdf = "''%PDF:<p>x</p>p{}''"]
    generate_by_content_type [where environ = "[''X_API_KEY'' \<mapsto> ''secret'']"
      and lib = "sample_library JNull []"
      and req = "\<lparr>req_method = ''POST'', req_path = ''/pdf'',
        req_headers = [''X_API_KEY'' \<mapsto> ''secret'', ''Content-Type'' \<mapsto> ''text/html''],
        req_args = Map.empty, req_body = ''<p>y</p>'', req_data = ''<p>y</p>''\<rparr>"
      and ctype = "''text/html''" and decoded = "''<p>y</p>''" and name = "''unnamed.pdf''"
      and raw_html = "''<p>y</p>''" and raw_pdf = "''%PDF:<p>y</p>''"]
  by (simp add: checkauth_passes_def sample_library_def args_get_def)

text \<open>
  C6 as stated does not hold, on three requests that are authorized and whose content type
  is not \<^verbatim>\<open>application/json\<close>, each with the body \<^verbatim>\<open><p>hi</p>\<close>, which renders to a PDF. Without
  a \<^verbatim>\<open>Content-Type\<close> header, \<^verbatim>\<open>request.headers['Content-Type']\<close> raises before the body is
  read, and the answer is 500. With a line feed in the file name, the PDF is written, setting
  the \<^verbatim>\<open>Content-Disposition\<close> header raises, and the answer is 500. With the content type
  \<^verbatim>\<open>application/x-www-form-urlencoded\<close>, \<^verbatim>\<open>request.data\<close> is empty: the answer is 200, but its
  body is the rendering of the empty text, not of the body sent.
\<close>

theorem generate_body_not_rendered:
  "HTML_string (sample_library JNull []) (JStr ''<p>hi</p>'') = Inr ''<p>hi</p>''
   \<and> write_pdf (sample_library JNull []) ''<p>hi</p>'' None = Inr ''%PDF:<p>hi</p>''
   \<and> serve (sample_library JNull []) Map.empty
     \<lparr>req_method = ''POST'', req_path = ''/pdf'', req_headers = Map.empty,
      req_args = Map.empty, req_body = ''<p>hi</p>'', req_data = ''<p>hi</p>''\<rparr>
     = Some ([Logged INFO ''POST  /pdf?filename=unnamed.pdf''],
             Inl (Uncaught (KeyError ''CONTENT_TYPE'')))
   \<and> serve (sample_library JNull []) Map.empty
     \<lparr>req_method = ''POST'', req_path = ''/pdf'',
      req_headers = [''Content-Type'' \<mapsto> ''text/html''],
      req_args = [''filename'' \<mapsto> ''a\<newline>b.pdf''],
      req_body = ''<p>hi</p>'', req_data = ''<p>hi</p>''\<rparr>
     = Some ([Logged INFO ''POST  /pdf?filename=a\<newline>b.pdf'', PdfWritten ''%PDF:<p>hi</p>''],
             Inl (Uncaught ValueError))
   \<and> serve (sample_library JNull []) Map.empty
     \<lparr>req_method = ''POST'', req_path = ''/pdf'',
      req_headers = [''Content-Type'' \<mapsto> ''application/x-www-form-urlencoded''],
      req_args = Map.empty, req_body = ''<p>hi</p>'', req_data = []\<rparr>
     = Some ([Logged INFO ''POST  /pdf?filename=unnamed.pdf'', PdfWritten ''%PDF:'',
              Logged INFO '' ==> POST  /pdf?filename=unnamed.pdf  ok''],
             Inr \<lparr>status = 200,
                  headers = [''Content-Type'' \<mapsto> ''application/pdf'',
                             ''Content-Disposition'' \<mapsto> ''inline;filename=unnamed.pdf''],
                  body = ''%PDF:''\<rparr>)
   \<and> http_status ([Logged INFO ''POST  /pdf?filename=unnamed.pdf''],
             Inl (Uncaught (KeyError ''CONTENT_TYPE''))) = 500
   \<and> http_status
         ([Logged INFO ''POST  /pdf?filename=a\<newline>b.pdf'', PdfWritten ''%PDF:<p>hi</p>''],
          Inl (Uncaught ValueError)) = 500"
  by (simp add: serve_def route_def authenticate_def checkauth_passes_def generate_def
      Let_def args_get_def headers_getitem_def sample_library_def pdf_response_safe
      pdf_response_unsafe throw_def)

end
